theory Spec2Isabelle
  imports Complex_Main "HOL-Library.Word" "HOL-Library.Stream" "HOL-Library.Sublist"
begin

unbundle bit_operations_syntax

section \<open>Python values and exceptions\<close>

text \<open>
  The three scripts (\<^verbatim>\<open>eft_api_client.py\<close>, \<^verbatim>\<open>eft_bsg_client.py\<close>,
  \<^verbatim>\<open>tarkov_api_client.py\<close>) are glue around library calls. A Python \<^verbatim>\<open>str\<close> is a
  \<^typ>\<open>string\<close> (one \<^typ>\<open>char\<close> per character), \<^verbatim>\<open>bytes\<close> a list of 8-bit words.
  An exception is a value: its class and the text \<^verbatim>\<open>str(e)\<close> gives. Only subclasses of
  \<^verbatim>\<open>Exception\<close> are modelled, so \<^verbatim>\<open>except Exception\<close> and a bare \<^verbatim>\<open>except:\<close>
  catch every \<open>exn\<close>. \<open>RequestException\<close> stands for what \<^verbatim>\<open>requests\<close> raises
  below the HTTP level (connection refused, timeout, invalid header). A class stands
  for itself only: \<open>ValueError\<close> is a plain \<^verbatim>\<open>ValueError\<close>, which an
  \<^verbatim>\<open>except json.JSONDecodeError\<close> does not catch.
\<close>

type_synonym bytes = "8 word list"

datatype exn_class =
  JSONDecodeError | UnicodeDecodeError | UnicodeEncodeError | RecursionError | ValueError
  | HTTPError | RequestException | AttributeError | TypeError | KeyError

datatype exn = Exn exn_class string

fun exn_class_of :: "exn \<Rightarrow> exn_class" where
  "exn_class_of (Exn c m) = c"

fun exn_str :: "exn \<Rightarrow> string" where
  "exn_str (Exn c m) = m"

text \<open>
  What \<^verbatim>\<open>json.loads\<close> yields: \<^verbatim>\<open>None\<close>, a bool, an int, a float, a str, a list or a
  dict with string keys. A dict is an association list in insertion order whose lookup
  is \<^const>\<open>map_of\<close>. A float is a rational, an infinity or NaN (\<^verbatim>\<open>json.loads\<close> accepts
  \<^verbatim>\<open>Infinity\<close> and \<^verbatim>\<open>NaN\<close>).
\<close>

datatype pyfloat = Fin rat | PosInf | NegInf | NaN

datatype json =
  JNull | JBool bool | JInt int | JFloat pyfloat | JStr string
  | JList "json list" | JDict "(string \<times> json) list"

fun py_type_name :: "json \<Rightarrow> string" where
  "py_type_name JNull = ''NoneType''"
| "py_type_name (JBool b) = ''bool''"
| "py_type_name (JInt n) = ''int''"
| "py_type_name (JFloat f) = ''float''"
| "py_type_name (JStr s) = ''str''"
| "py_type_name (JList xs) = ''list''"
| "py_type_name (JDict kvs) = ''dict''"

text \<open>Truthiness, as \<^verbatim>\<open>if x:\<close> and \<^verbatim>\<open>x if c else y\<close> test it.\<close>

fun py_truthy :: "json \<Rightarrow> bool" where
  "py_truthy JNull = False"
| "py_truthy (JBool b) = b"
| "py_truthy (JInt n) = (n \<noteq> 0)"
| "py_truthy (JFloat f) = (f \<noteq> Fin 0)"
| "py_truthy (JStr s) = (s \<noteq> [])"
| "py_truthy (JList xs) = (xs \<noteq> [])"
| "py_truthy (JDict kvs) = (kvs \<noteq> [])"

text \<open>\<^verbatim>\<open>x == 0\<close>: numeric equality, and \<^verbatim>\<open>False == 0\<close> holds since bool is an int.\<close>

fun py_eq_zero :: "json \<Rightarrow> bool" where
  "py_eq_zero (JInt n) = (n = 0)"
| "py_eq_zero (JBool b) = (\<not> b)"
| "py_eq_zero (JFloat f) = (f = Fin 0)"
| "py_eq_zero v = False"

text \<open>\<^verbatim>\<open>obj.get(key, default)\<close>: only a dict has the method.\<close>

fun py_get :: "json \<Rightarrow> string \<Rightarrow> json \<Rightarrow> exn + json" where
  "py_get (JDict kvs) k d = Inr (case map_of kvs k of Some v \<Rightarrow> v | None \<Rightarrow> d)"
| "py_get v k d =
     Inl (Exn AttributeError
       ([CHR 0x27] @ py_type_name v @ [CHR 0x27] @ '' object has no attribute '' @
        [CHR 0x27] @ ''get'' @ [CHR 0x27]))"

text \<open>
  \<^verbatim>\<open>key in obj\<close> for a string key: key membership in a dict, element membership in a
  list, substring test in a str, and a TypeError on a value that is not iterable.
\<close>

fun py_contains :: "string \<Rightarrow> json \<Rightarrow> exn + bool" where
  "py_contains k (JDict kvs) = Inr (map_of kvs k \<noteq> None)"
| "py_contains k (JList xs) = Inr (JStr k \<in> set xs)"
| "py_contains k (JStr s) = Inr (sublist k s)"
| "py_contains k v =
     Inl (Exn TypeError
       (''argument of type '' @ [CHR 0x27] @ py_type_name v @ [CHR 0x27] @
        '' is not iterable''))"

text \<open>\<^verbatim>\<open>obj[key]\<close> for a string key: KeyError on a dict without it, TypeError elsewhere.\<close>

fun py_subscript :: "json \<Rightarrow> string \<Rightarrow> exn + json" where
  "py_subscript (JDict kvs) k =
     (case map_of kvs k of
        Some v \<Rightarrow> Inr v
      | None \<Rightarrow> Inl (Exn KeyError ([CHR 0x27] @ k @ [CHR 0x27])))"
| "py_subscript (JList xs) k =
     Inl (Exn TypeError ''list indices must be integers or slices, not str'')"
| "py_subscript (JStr s) k =
     Inl (Exn TypeError ''string indices must be integers, not str'')"
| "py_subscript v k =
     Inl (Exn TypeError
       ([CHR 0x27] @ py_type_name v @ [CHR 0x27] @ '' object is not subscriptable''))"

text \<open>\<^verbatim>\<open>obj[:n]\<close>: a str and a list can be sliced, nothing else among these values.\<close>

fun py_slice_to :: "json \<Rightarrow> nat \<Rightarrow> exn + json" where
  "py_slice_to (JStr s) n = Inr (JStr (take n s))"
| "py_slice_to (JList xs) n = Inr (JList (take n xs))"
| "py_slice_to (JDict kvs) n =
     Inl (Exn TypeError (''unhashable type: '' @ [CHR 0x27] @ ''slice'' @ [CHR 0x27]))"
| "py_slice_to v n =
     Inl (Exn TypeError
       ([CHR 0x27] @ py_type_name v @ [CHR 0x27] @ '' object is not subscriptable''))"


text \<open>Sequencing two steps that may raise: the second runs only if the first returned.\<close>

fun and_then :: "exn + 'a \<Rightarrow> ('a \<Rightarrow> exn + 'b) \<Rightarrow> exn + 'b" where
  "and_then (Inl e) f = Inl e"
| "and_then (Inr x) f = f x"

text \<open>
  \<^verbatim>\<open>str(n)\<close> of a non-negative int (\<open>digit_char\<close> is only applied below 10), and
  \<^verbatim>\<open>sep.join(parts)\<close>.
\<close>

definition digit_char :: "nat \<Rightarrow> char" where
  "digit_char d = ''0123456789'' ! d"

function str_of_nat :: "nat \<Rightarrow> string" where
  "str_of_nat n = (if n < 10 then [digit_char n] else str_of_nat (n div 10) @ [digit_char (n mod 10)])"
  by pat_completeness auto
termination
  by (relation "measure (\<lambda>n. n)") auto

declare str_of_nat.simps [simp del]

fun py_join :: "string \<Rightarrow> string list \<Rightarrow> string" where
  "py_join sep [] = []"
| "py_join sep [x] = x"
| "py_join sep (x # y # ys) = x @ sep @ py_join sep (y # ys)"

text \<open>\<^verbatim>\<open>s.strip()\<close>: whitespace is removed at both ends.\<close>

definition is_space :: "char \<Rightarrow> bool" where
  "is_space c = (c \<in> set [CHR '' '', CHR 0x09, CHR 0x0A, CHR 0x0B, CHR 0x0C, CHR 0x0D,
                          CHR 0x1C, CHR 0x1D, CHR 0x1E, CHR 0x1F, CHR 0x85, CHR 0xA0])"

definition py_strip :: "string \<Rightarrow> string" where
  "py_strip s = rev (dropWhile is_space (rev (dropWhile is_space s)))"

section \<open>The libraries the scripts call\<close>

text \<open>
  \<^verbatim>\<open>zlib\<close>, \<^verbatim>\<open>json\<close>, \<^verbatim>\<open>hashlib\<close> and the codecs are not code of this repository;
  they are a parameter of every definition below. For \<open>zlib_decompress\<close> and
  \<open>bytes_decode\<close>, \<open>None\<close> is the one exception they raise on bad input
  (\<^verbatim>\<open>zlib.error\<close>, \<^verbatim>\<open>UnicodeDecodeError\<close>). \<^verbatim>\<open>json.loads\<close> raises more than one: where
  \<open>json_loads\<close> is \<open>None\<close>, \<open>json_error\<close> is the exception raised, a
  \<^verbatim>\<open>JSONDecodeError\<close> for malformed text, a \<^verbatim>\<open>RecursionError\<close> for text nested too
  deeply, a \<^verbatim>\<open>ValueError\<close> for a numeral with too many digits. \<open>json_dump\<close> is
  \<^verbatim>\<open>json.dump(data, f, indent=2, ensure_ascii=False)\<close> into a file opened as UTF-8: it
  writes the whole text (\<open>Inr\<close>), or raises after writing a part of it (\<open>Inl\<close>, with
  the part written), as it does with a \<^verbatim>\<open>UnicodeEncodeError\<close> for a lone surrogate.
  An MD5 digest is 128 bits; \<open>py_format\<close> is what an f-string inserts for a value. \<open>zlib_compress\<close> and \<open>json_dumps\<close> are not called by the scripts;
  they state the round trip of the decoder.
\<close>

record pylib =
  zlib_decompress :: "bytes \<Rightarrow> bytes option"
  zlib_compress :: "bytes \<Rightarrow> bytes"
  bytes_decode :: "bytes \<Rightarrow> string option"
  str_encode :: "string \<Rightarrow> bytes"
  json_loads :: "string \<Rightarrow> json option"
  json_error :: "string \<Rightarrow> exn"
  json_dumps :: "json \<Rightarrow> string"
  json_dump :: "json \<Rightarrow> (exn \<times> string) + string"
  py_format :: "json \<Rightarrow> string"
  md5 :: "bytes \<Rightarrow> 128 word"

definition py_decode :: "pylib \<Rightarrow> bytes \<Rightarrow> exn + string" where
  "py_decode L b =
     (case bytes_decode L b of
        Some s \<Rightarrow> Inr s
      | None \<Rightarrow> Inl (Exn UnicodeDecodeError ''utf-8 codec cannot decode bytes''))"

definition py_json_loads :: "pylib \<Rightarrow> string \<Rightarrow> exn + json" where
  "py_json_loads L s =
     (case json_loads L s of
        Some v \<Rightarrow> Inr v
      | None \<Rightarrow> Inl (json_error L s))"

text \<open>
  \<^verbatim>\<open>hexdigest()\<close>: the 16 digest bytes in order, two lowercase hexadecimal digits each,
  which are the 32 nibbles of the 128-bit digest from the most significant down. A
  nibble is below 16, so \<open>hex_digit\<close> is only applied within its table.
\<close>

definition hex_digit :: "nat \<Rightarrow> char" where
  "hex_digit d = ''0123456789abcdef'' ! d"

definition hexdigest :: "128 word \<Rightarrow> string" where
  "hexdigest w = map (\<lambda>i. hex_digit (unat (drop_bit (4 * (31 - i)) w AND 15))) [0..<32]"

text \<open>
  \<^verbatim>\<open>secrets.token_bytes(16)\<close> reads the operating system's entropy: the byte strings it
  will return, in order, are a stream, and a call takes the head.
\<close>

type_synonym entropy = "bytes stream"

definition token_bytes :: "entropy \<Rightarrow> bytes \<times> entropy" where
  "token_bytes rng = (shd rng, stl rng)"

text \<open>The file system: the text files that exist, by path.\<close>

type_synonym filesystem = "string \<rightharpoonup> string"

section \<open>HTTP\<close>

text \<open>
  A response as \<^verbatim>\<open>requests\<close> presents it: \<open>resp_text\<close> is \<^verbatim>\<open>response.text\<close> (the body
  decoded with replacement characters, never raising) and \<open>resp_json\<close> is
  \<^verbatim>\<open>response.json()\<close>, \<open>None\<close> when it raises, and then \<open>resp_json_error\<close> is the
  exception it raises. The network
  answers a request, given the requests sent before it, with a response or an exception;
  \<open>http_send\<close> records the request.
\<close>

datatype http_method = GET | POST

record request =
  req_method :: http_method
  req_url :: string
  req_headers :: "(string \<times> json) list"
  req_json :: "json option"

record response =
  status_code :: int
  content :: bytes
  resp_text :: string
  resp_json :: "json option"
  resp_json_error :: exn

type_synonym network = "request list \<Rightarrow> request \<Rightarrow> exn + response"

definition http_send :: "network \<Rightarrow> request list \<Rightarrow> request \<Rightarrow> (exn + response) \<times> request list" where
  "http_send net sent req = (net sent req, sent @ [req])"

text \<open>\<^verbatim>\<open>requests.post(url, json=data, ...)\<close> if \<^verbatim>\<open>data\<close> is truthy, else \<^verbatim>\<open>requests.get\<close>.\<close>

definition post_or_get :: "string \<Rightarrow> (string \<times> json) list \<Rightarrow> json \<Rightarrow> request" where
  "post_or_get url headers data =
     (if py_truthy data
      then \<lparr>req_method = POST, req_url = url, req_headers = headers, req_json = Some data\<rparr>
      else \<lparr>req_method = GET, req_url = url, req_headers = headers, req_json = None\<rparr>)"

section \<open>eft\_bsg\_client.py: EFTLauncher\<close>

text \<open>
  The launcher object. \<open>token\<close> and \<open>game_session\<close> start as \<^verbatim>\<open>None\<close> and later hold
  whatever value the backend's response carried under \<^verbatim>\<open>access_token\<close> and
  \<^verbatim>\<open>session\<close>. Progress messages (\<^verbatim>\<open>print\<close>) are left out, except where evaluating the
  message can raise.
\<close>

record EFTLauncher =
  email :: string
  password :: string
  launcher_version :: string
  client_version :: string
  unity_version :: string
  token :: json
  game_session :: json
  storage_path :: string
  hw_code :: string

definition LAUNCHER_URL :: string where
  "LAUNCHER_URL = ''https://launcher.escapefromtarkov.com''"

definition PROD_URL :: string where
  "PROD_URL = ''https://prod.escapefromtarkov.com''"

text \<open>\<^verbatim>\<open>hashlib.md5(self.email.encode()).hexdigest()[:12]\<close>\<close>

definition safe_email :: "pylib \<Rightarrow> string \<Rightarrow> string" where
  "safe_email L em = take 12 (hexdigest (md5 L (str_encode L em)))"

text \<open>\<^verbatim>\<open>Path(".eft_storage") / self._safe_email()\<close> and \<^verbatim>\<open>self.storage_path / "hwcode.txt"\<close>\<close>

definition storage_path_of :: "pylib \<Rightarrow> string \<Rightarrow> string" where
  "storage_path_of L em = ''.eft_storage/'' @ safe_email L em"

definition hw_file_of :: "string \<Rightarrow> string" where
  "hw_file_of sp = sp @ ''/hwcode.txt''"

text \<open>
  \<^verbatim>\<open>random_md5\<close>, the list comprehension \<^verbatim>\<open>[random_md5() for _ in range(n)]\<close>, and
  \<^verbatim>\<open>_generate_hw_code\<close>: eight draws, in the order the source makes them.
\<close>

definition random_md5 :: "pylib \<Rightarrow> entropy \<Rightarrow> string \<times> entropy" where
  "random_md5 L rng = (case token_bytes rng of (b, rng') \<Rightarrow> (hexdigest (md5 L b), rng'))"

fun random_md5s :: "pylib \<Rightarrow> nat \<Rightarrow> entropy \<Rightarrow> string list \<times> entropy" where
  "random_md5s L 0 rng = ([], rng)"
| "random_md5s L (Suc n) rng =
     (case random_md5 L rng of (h, rng1) \<Rightarrow>
        (case random_md5s L n rng1 of (hs, rng2) \<Rightarrow> (h # hs, rng2)))"

definition generate_hw_code :: "pylib \<Rightarrow> entropy \<Rightarrow> string \<times> entropy" where
  "generate_hw_code L rng =
     (case random_md5s L 3 rng of (ps1, rng1) \<Rightarrow>
        (case random_md5s L 4 rng1 of (ps2, rng2) \<Rightarrow>
           (case random_md5 L rng2 of (h, rng3) \<Rightarrow>
              (''#1-'' @ py_join '':'' ps1 @ ''-'' @ py_join ''-'' ps2 @ ''-'' @ take 24 h,
               rng3))))"

text \<open>
  \<^verbatim>\<open>_get_or_create_hw_code\<close>: the stored code if the file exists, else a new one, written
  to the file. The file system and the entropy left are returned with the code.
\<close>

definition get_or_create_hw_code ::
  "pylib \<Rightarrow> string \<Rightarrow> filesystem \<Rightarrow> entropy \<Rightarrow> string \<times> filesystem \<times> entropy" where
  "get_or_create_hw_code L sp fs rng =
     (case fs (hw_file_of sp) of
        Some stored \<Rightarrow> (py_strip stored, fs, rng)
      | None \<Rightarrow>
          (case generate_hw_code L rng of (code, rng') \<Rightarrow>
             (code, fs(hw_file_of sp \<mapsto> code), rng')))"

text \<open>\<^verbatim>\<open>EFTLauncher.__init__\<close>\<close>

definition EFTLauncher_init ::
  "pylib \<Rightarrow> filesystem \<Rightarrow> entropy \<Rightarrow> string \<Rightarrow> string \<Rightarrow> string \<Rightarrow> string \<Rightarrow> string
   \<Rightarrow> EFTLauncher \<times> filesystem \<times> entropy" where
  "EFTLauncher_init L fs rng em pw lv cv uv =
     (case get_or_create_hw_code L (storage_path_of L em) fs rng of (code, fs', rng') \<Rightarrow>
        (\<lparr>email = em, password = pw, launcher_version = lv, client_version = cv,
          unity_version = uv, token = JNull, game_session = JNull,
          storage_path = storage_path_of L em, hw_code = code\<rparr>, fs', rng'))"

text \<open>\<^verbatim>\<open>_md5_password\<close>: \<^verbatim>\<open>hashlib.md5(self.password.encode()).hexdigest()\<close>\<close>

definition md5_password :: "pylib \<Rightarrow> EFTLauncher \<Rightarrow> string" where
  "md5_password L l = hexdigest (md5 L (str_encode L (password l)))"

text \<open>\<^verbatim>\<open>_launcher_headers\<close> and \<^verbatim>\<open>_client_headers\<close>\<close>

definition launcher_headers :: "EFTLauncher \<Rightarrow> (string \<times> json) list" where
  "launcher_headers l =
     [(''Content-Type'', JStr ''application/json''),
      (''User-Agent'', JStr (''BSG Launcher '' @ launcher_version l))]
     @ (if py_truthy (token l) then [(''Authorization'', token l)] else [])"

definition launcher_client_headers :: "pylib \<Rightarrow> EFTLauncher \<Rightarrow> (string \<times> json) list" where
  "launcher_client_headers L l =
     [(''Content-Type'', JStr ''application/json''),
      (''User-Agent'', JStr (''UnityPlayer/'' @ unity_version l @
          '' (UnityWebRequest/1.0, libcurl/7.52.0-DEV)'')),
      (''App-Version'', JStr (''EFT Client '' @ client_version l)),
      (''X-Unity-Version'', JStr (unity_version l)),
      (''Cookie'', JStr (''PHPSESSID='' @ py_format L (game_session l)))]"

text \<open>
  \<^verbatim>\<open>EFTLauncher._request\<close>, the part after the response arrived: zlib first; on
  \<^verbatim>\<open>zlib.error\<close> the body as JSON, and if that raises anything, the parse-error dict. A
  decoding or JSON error of a body that did decompress is not a \<^verbatim>\<open>zlib.error\<close> and
  leaves the method.
\<close>

definition launcher_decode :: "pylib \<Rightarrow> response \<Rightarrow> exn + json" where
  "launcher_decode L r =
     (case zlib_decompress L (content r) of
        Some c \<Rightarrow> and_then (py_decode L c) (py_json_loads L)
      | None \<Rightarrow>
          (case resp_json r of
             Some v \<Rightarrow> Inr v
           | None \<Rightarrow>
               Inr (JDict [(''error'', JStr ''Parse error''),
                           (''raw'', JStr (take 500 (resp_text r))),
                           (''status'', JInt (status_code r))])))"

definition launcher_request ::
  "pylib \<Rightarrow> network \<Rightarrow> EFTLauncher \<Rightarrow> request list \<Rightarrow> string \<Rightarrow> json \<Rightarrow> bool
   \<Rightarrow> (exn + json) \<times> request list" where
  "launcher_request L net l sent url data use_client_headers =
     (let headers = (if use_client_headers then launcher_client_headers L l
                     else launcher_headers l)
      in case http_send net sent (post_or_get url headers data) of
           (Inl e, sent') \<Rightarrow> (Inl e, sent')
         | (Inr r, sent') \<Rightarrow> (launcher_decode L r, sent'))"

text \<open>
  The test \<^verbatim>\<open>response.get("err") == 0 and "data" in response\<close> of \<^verbatim>\<open>login\<close> and
  \<^verbatim>\<open>start_game\<close>; \<^verbatim>\<open>and\<close> evaluates its right side only if the left is true.
\<close>

definition err_ok_with_data :: "json \<Rightarrow> exn + bool" where
  "err_ok_with_data resp =
     and_then (py_get resp ''err'' JNull)
       (\<lambda>err. if py_eq_zero err then py_contains ''data'' resp else Inr False)"

text \<open>\<^verbatim>\<open>response["data"].get(key)\<close>\<close>

definition data_field :: "json \<Rightarrow> string \<Rightarrow> exn + json" where
  "data_field resp k = and_then (py_subscript resp ''data'') (\<lambda>d. py_get d k JNull)"

text \<open>
  The message \<^verbatim>\<open>print(f"... {tok[:30]}..." if tok else "...")\<close> printed right after
  the token is stored: the slice is evaluated only for a truthy token.
\<close>

definition print_token :: "json \<Rightarrow> exn + unit" where
  "print_token tok =
     (if py_truthy tok then and_then (py_slice_to tok 30) (\<lambda>_. Inr ()) else Inr ())"

text \<open>
  \<^verbatim>\<open>login\<close>. The result is \<open>Inr True\<close>, \<open>Inr False\<close> or an exception, with the launcher
  and the requests sent so far as they are when the call ends.
\<close>

definition login_url :: "EFTLauncher \<Rightarrow> string" where
  "login_url l =
     LAUNCHER_URL @ ''/launcher/login?launcherVersion='' @ launcher_version l @ ''&branch=live''"

definition login_data :: "pylib \<Rightarrow> EFTLauncher \<Rightarrow> json" where
  "login_data L l =
     JDict [(''email'', JStr (email l)),
            (''pass'', JStr (md5_password L l)),
            (''hwCode'', JStr (hw_code l))]"

definition login ::
  "pylib \<Rightarrow> network \<Rightarrow> EFTLauncher \<Rightarrow> request list \<Rightarrow> (exn + bool) \<times> EFTLauncher \<times> request list" where
  "login L net l sent =
     (case launcher_request L net l sent (login_url l) (login_data L l) False of
        (Inl e, sent') \<Rightarrow> (Inl e, l, sent')
      | (Inr resp, sent') \<Rightarrow>
          (case err_ok_with_data resp of
             Inl e \<Rightarrow> (Inl e, l, sent')
           | Inr True \<Rightarrow>
               (case data_field resp ''access_token'' of
                  Inl e \<Rightarrow> (Inl e, l, sent')
                | Inr tok \<Rightarrow>
                    (and_then (print_token tok) (\<lambda>_. Inr True),
                     l\<lparr>token := tok\<rparr>, sent'))
           | Inr False \<Rightarrow> (Inr False, l, sent')))"







section \<open>eft\_bsg\_client.py: EFTClient and the loop of main\<close>

record EFTClient =
  launcher :: EFTLauncher
  request_id :: nat

text \<open>\<^verbatim>\<open>EFTClient.__init__\<close>\<close>

definition EFTClient_init :: "EFTLauncher \<Rightarrow> EFTClient" where
  "EFTClient_init l = \<lparr>launcher = l, request_id = 0\<rparr>"

text \<open>
  \<^verbatim>\<open>EFTClient._headers\<close>: the counter is incremented, then attached as
  \<^verbatim>\<open>GClient-RequestId\<close>, a key the launcher's client headers do not have.
\<close>

definition client_headers :: "pylib \<Rightarrow> EFTClient \<Rightarrow> (string \<times> json) list \<times> EFTClient" where
  "client_headers L c =
     (let c' = c\<lparr>request_id := request_id c + 1\<rparr>
      in (launcher_client_headers L (launcher c')
          @ [(''GClient-RequestId'', JStr (str_of_nat (request_id c')))], c'))"

text \<open>
  \<^verbatim>\<open>EFTClient._request\<close>: the inner try falls back to \<^verbatim>\<open>response.json()\<close> on
  \<^verbatim>\<open>zlib.error\<close>; the outer one turns every exception into \<^verbatim>\<open>{"error": str(e)}\<close>.
\<close>

definition client_decode :: "pylib \<Rightarrow> response \<Rightarrow> exn + json" where
  "client_decode L r =
     (case zlib_decompress L (content r) of
        Some c \<Rightarrow> and_then (py_decode L c) (py_json_loads L)
      | None \<Rightarrow>
          (case resp_json r of
             Some v \<Rightarrow> Inr v
           | None \<Rightarrow> Inl (resp_json_error r)))"

definition error_dict :: "exn \<Rightarrow> json" where
  "error_dict e = JDict [(''error'', JStr (exn_str e))]"

definition client_request ::
  "pylib \<Rightarrow> network \<Rightarrow> string \<Rightarrow> json \<Rightarrow> EFTClient \<times> request list
   \<Rightarrow> (exn + json) \<times> EFTClient \<times> request list" where
  "client_request L net endpoint data st =
     (case st of (c, sent) \<Rightarrow>
        (case client_headers L c of (headers, c') \<Rightarrow>
           (case http_send net sent (post_or_get (PROD_URL @ endpoint) headers data) of
              (Inl e, sent') \<Rightarrow> (Inr (error_dict e), c', sent')
            | (Inr r, sent') \<Rightarrow>
                (case client_decode L r of
                   Inl e \<Rightarrow> (Inr (error_dict e), c', sent')
                 | Inr v \<Rightarrow> (Inr v, c', sent')))))"

text \<open>The endpoint methods; each is one \<^verbatim>\<open>self._request(path)\<close>.\<close>

type_synonym client_state = "EFTClient \<times> request list"

definition get_globals :: "pylib \<Rightarrow> network \<Rightarrow> client_state \<Rightarrow> (exn + json) \<times> client_state" where
  "get_globals L net = client_request L net ''/client/globals'' JNull"

definition get_items :: "pylib \<Rightarrow> network \<Rightarrow> client_state \<Rightarrow> (exn + json) \<times> client_state" where
  "get_items L net = client_request L net ''/client/items'' JNull"

definition get_locale :: "pylib \<Rightarrow> network \<Rightarrow> string \<Rightarrow> client_state \<Rightarrow> (exn + json) \<times> client_state" where
  "get_locale L net lang = client_request L net (''/client/locale/'' @ lang) JNull"

definition get_achievements :: "pylib \<Rightarrow> network \<Rightarrow> client_state \<Rightarrow> (exn + json) \<times> client_state" where
  "get_achievements L net = client_request L net ''/client/achievement/list'' JNull"

definition get_achievement_statistics ::
  "pylib \<Rightarrow> network \<Rightarrow> client_state \<Rightarrow> (exn + json) \<times> client_state" where
  "get_achievement_statistics L net = client_request L net ''/client/achievement/statistic'' JNull"

definition get_survey :: "pylib \<Rightarrow> network \<Rightarrow> client_state \<Rightarrow> (exn + json) \<times> client_state" where
  "get_survey L net = client_request L net ''/client/survey'' JNull"

definition get_locations :: "pylib \<Rightarrow> network \<Rightarrow> client_state \<Rightarrow> (exn + json) \<times> client_state" where
  "get_locations L net = client_request L net ''/client/locations'' JNull"

definition get_profiles :: "pylib \<Rightarrow> network \<Rightarrow> client_state \<Rightarrow> (exn + json) \<times> client_state" where
  "get_profiles L net = client_request L net ''/client/game/profile/list'' JNull"

definition get_hideout_areas :: "pylib \<Rightarrow> network \<Rightarrow> client_state \<Rightarrow> (exn + json) \<times> client_state" where
  "get_hideout_areas L net = client_request L net ''/client/hideout/areas'' JNull"

definition get_hideout_settings :: "pylib \<Rightarrow> network \<Rightarrow> client_state \<Rightarrow> (exn + json) \<times> client_state" where
  "get_hideout_settings L net = client_request L net ''/client/hideout/settings'' JNull"

definition get_hideout_recipes :: "pylib \<Rightarrow> network \<Rightarrow> client_state \<Rightarrow> (exn + json) \<times> client_state" where
  "get_hideout_recipes L net = client_request L net ''/client/hideout/production/recipes'' JNull"

definition get_trader_settings :: "pylib \<Rightarrow> network \<Rightarrow> client_state \<Rightarrow> (exn + json) \<times> client_state" where
  "get_trader_settings L net = client_request L net ''/client/trading/api/traderSettings'' JNull"

definition get_customization :: "pylib \<Rightarrow> network \<Rightarrow> client_state \<Rightarrow> (exn + json) \<times> client_state" where
  "get_customization L net = client_request L net ''/client/customization'' JNull"

definition get_weather :: "pylib \<Rightarrow> network \<Rightarrow> client_state \<Rightarrow> (exn + json) \<times> client_state" where
  "get_weather L net = client_request L net ''/client/weather'' JNull"

definition get_handbook :: "pylib \<Rightarrow> network \<Rightarrow> client_state \<Rightarrow> (exn + json) \<times> client_state" where
  "get_handbook L net = client_request L net ''/client/handbook/templates'' JNull"

text \<open>
  \<^verbatim>\<open>save_response\<close> and the two \<^verbatim>\<open>save_to_file\<close>: the file under the output directory
  is opened for writing, which replaces a file of that name, and the pretty-printed JSON
  is dumped into it. If the dump raises, the file is left with the part written. The
  directory and the file are taken to be writable.
\<close>

definition save_json ::
  "pylib \<Rightarrow> string \<Rightarrow> filesystem \<Rightarrow> json \<Rightarrow> string \<Rightarrow> (exn + unit) \<times> filesystem" where
  "save_json L dir fs data filename =
     (case json_dump L data of
        Inr whole \<Rightarrow> (Inr (), fs(dir @ ''/'' @ filename \<mapsto> whole))
      | Inl (e, part) \<Rightarrow> (Inl e, fs(dir @ ''/'' @ filename \<mapsto> part)))"

definition save_response ::
  "pylib \<Rightarrow> filesystem \<Rightarrow> json \<Rightarrow> string \<Rightarrow> (exn + unit) \<times> filesystem" where
  "save_response L = save_json L ''bsg_output''"


text \<open>
  What a loop of \<^verbatim>\<open>main\<close> prints for one catalog entry: the line of the save method
  after the file is written (\<open>Saved\<close>), or the entry's error (\<open>ErrorReported\<close>), or the
  exception in the \<^verbatim>\<open>except Exception\<close> clause (\<open>ExceptionReported\<close>), or the line of
  the save method and then an exception (\<open>SavedThenException\<close>). A catalog entry is a
  name and a function of no argument; what the function reads and changes (the client's
  counter, the requests sent) is the state \<open>'s\<close>.
\<close>

datatype outcome = Saved | ErrorReported | ExceptionReported | SavedThenException

type_synonym 's catalog = "(string \<times> ('s \<Rightarrow> (exn + json) \<times> 's)) list"

text \<open>
  The body of the loop of \<^verbatim>\<open>eft_bsg_client.main\<close>:
  \<^verbatim>\<open>data = func(); if data.get("err") == 0: save_response(...) else: print(...)\<close>
  inside \<^verbatim>\<open>try ... except Exception\<close>.
\<close>

definition bsg_entry ::
  "pylib \<Rightarrow> string \<times> ('s \<Rightarrow> (exn + json) \<times> 's) \<Rightarrow> 's \<Rightarrow> filesystem
   \<Rightarrow> outcome \<times> 's \<times> filesystem" where
  "bsg_entry L entry st fs =
     (case entry of (name, func) \<Rightarrow>
        (case func st of
           (Inl e, st') \<Rightarrow> (ExceptionReported, st', fs)
         | (Inr data, st') \<Rightarrow>
             (case py_get data ''err'' JNull of
                Inl e \<Rightarrow> (ExceptionReported, st', fs)
              | Inr err \<Rightarrow>
                  if py_eq_zero err
                  then (case save_response L fs data (name @ ''.json'') of
                          (Inl e, fs') \<Rightarrow> (ExceptionReported, st', fs')
                        | (Inr _, fs') \<Rightarrow> (Saved, st', fs'))
                  else (ErrorReported, st', fs))))"

fun bsg_main_loop ::
  "pylib \<Rightarrow> 's catalog \<Rightarrow> 's \<Rightarrow> filesystem \<Rightarrow> (string \<times> outcome) list \<times> 's \<times> filesystem" where
  "bsg_main_loop L [] st fs = ([], st, fs)"
| "bsg_main_loop L (entry # rest) st fs =
     (case bsg_entry L entry st fs of (out, st', fs') \<Rightarrow>
        (case bsg_main_loop L rest st' fs' of (outs, st'', fs'') \<Rightarrow>
           ((fst entry, out) # outs, st'', fs'')))"

text \<open>The list \<^verbatim>\<open>endpoints\<close> of \<^verbatim>\<open>eft_bsg_client.main\<close>.\<close>

definition bsg_endpoints :: "pylib \<Rightarrow> network \<Rightarrow> client_state catalog" where
  "bsg_endpoints L net =
     [(''globals'', get_globals L net),
      (''items'', get_items L net),
      (''locale_en'', get_locale L net ''en''),
      (''achievements'', get_achievements L net),
      (''achievement_stats'', get_achievement_statistics L net),
      (''survey'', get_survey L net),
      (''locations'', get_locations L net),
      (''hideout_areas'', get_hideout_areas L net),
      (''hideout_settings'', get_hideout_settings L net),
      (''hideout_recipes'', get_hideout_recipes L net),
      (''customization'', get_customization L net)]"

section \<open>eft\_api\_client.py\<close>

text \<open>
  The client of \<^verbatim>\<open>eft_api_client.py\<close> (also a class \<^verbatim>\<open>EFTClient\<close>; here \<open>ApiClient\<close>).
  Its session's default headers are set once in \<^verbatim>\<open>__init__\<close> and sent with every
  request.
\<close>

record ApiClient =
  session_id :: json

definition ApiClient_init :: ApiClient where
  "ApiClient_init = \<lparr>session_id = JNull\<rparr>"

definition BACKEND_URL :: string where
  "BACKEND_URL = ''https://prod.escapefromtarkov.com''"

definition api_session_headers :: "(string \<times> json) list" where
  "api_session_headers =
     [(''User-Agent'', JStr ''UnityPlayer/2021.3.16f1 (UnityWebRequest/1.0, libcurl/7.84.0-DEV)''),
      (''Accept'', JStr ''*/*''),
      (''Accept-Encoding'', JStr ''deflate, gzip''),
      (''Content-Type'', JStr ''application/json'')]"

text \<open>\<^verbatim>\<open>_compute_password_hash\<close>: \<^verbatim>\<open>hashlib.md5(password.encode()).hexdigest()\<close>\<close>

definition compute_password_hash :: "pylib \<Rightarrow> string \<Rightarrow> string" where
  "compute_password_hash L pw = hexdigest (md5 L (str_encode L pw))"

text \<open>\<^verbatim>\<open>_decompress_response\<close>: on \<^verbatim>\<open>zlib.error\<close> the bytes are decoded as they are.\<close>

definition decompress_response :: "pylib \<Rightarrow> bytes \<Rightarrow> exn + string" where
  "decompress_response L data =
     (case zlib_decompress L data of
        Some d \<Rightarrow> py_decode L d
      | None \<Rightarrow> py_decode L data)"

text \<open>
  The try block of \<^verbatim>\<open>EFTClient._request\<close>:
  \<^verbatim>\<open>except (json.JSONDecodeError, UnicodeDecodeError)\<close> returns the error dict with the
  first 500 characters of \<^verbatim>\<open>response.text\<close>; any other exception leaves the method.
\<close>

definition api_decode :: "pylib \<Rightarrow> response \<Rightarrow> exn + json" where
  "api_decode L r =
     (case and_then (decompress_response L (content r)) (py_json_loads L) of
        Inr v \<Rightarrow> Inr v
      | Inl e \<Rightarrow>
          if exn_class_of e = JSONDecodeError \<or> exn_class_of e = UnicodeDecodeError
          then Inr (JDict [(''error'', JStr ''Failed to parse response''),
                           (''raw'', JStr (take 500 (resp_text r)))])
          else Inl e)"

definition api_request ::
  "pylib \<Rightarrow> network \<Rightarrow> ApiClient \<Rightarrow> string \<Rightarrow> string \<Rightarrow> json \<Rightarrow> request list
   \<Rightarrow> (exn + json) \<times> request list" where
  "api_request L net c meth url data sent =
     (let headers = api_session_headers @
            (if py_truthy (session_id c)
             then [(''Cookie'', JStr (''PHPSESSID='' @ py_format L (session_id c)))]
             else []);
          req = (if meth = ''POST'' \<and> py_truthy data
                 then \<lparr>req_method = POST, req_url = url, req_headers = headers,
                       req_json = Some data\<rparr>
                 else \<lparr>req_method = GET, req_url = url, req_headers = headers,
                       req_json = None\<rparr>)
      in case http_send net sent req of
           (Inl e, sent') \<Rightarrow> (Inl e, sent')
         | (Inr r, sent') \<Rightarrow> (api_decode L r, sent'))"

text \<open>
  \<^verbatim>\<open>EFTClient.login\<close> of \<^verbatim>\<open>eft_api_client.py\<close>. Everything after the hash is inside
  \<^verbatim>\<open>try ... except Exception: return False\<close>, so the result is a bool. The session id
  is stored before the message that slices it is printed.
\<close>

definition api_login_data :: "pylib \<Rightarrow> string \<Rightarrow> string \<Rightarrow> json" where
  "api_login_data L em pw =
     JDict [(''email'', JStr em),
            (''pass'', JStr (compute_password_hash L pw)),
            (''hwCode'', JStr ''generated_hardware_code''),
            (''captcha'', JNull)]"

definition session_in_data :: "json \<Rightarrow> exn + bool" where
  "session_in_data resp =
     and_then (py_contains ''data'' resp)
       (\<lambda>has. if has
               then and_then (py_subscript resp ''data'') (py_contains ''session'')
               else Inr False)"

definition api_login ::
  "pylib \<Rightarrow> network \<Rightarrow> ApiClient \<Rightarrow> string \<Rightarrow> string \<Rightarrow> request list
   \<Rightarrow> bool \<times> ApiClient \<times> request list" where
  "api_login L net c em pw sent =
     (case api_request L net c ''POST'' (LAUNCHER_URL @ ''/launcher/login'')
             (api_login_data L em pw) sent of
        (Inl e, sent') \<Rightarrow> (False, c, sent')
      | (Inr resp, sent') \<Rightarrow>
          (case py_get resp ''err'' JNull of
             Inl e \<Rightarrow> (False, c, sent')
           | Inr err \<Rightarrow>
               if py_eq_zero err
               then (case session_in_data resp of
                       Inl e \<Rightarrow> (False, c, sent')
                     | Inr False \<Rightarrow> (False, c, sent')
                     | Inr True \<Rightarrow>
                         (case and_then (py_subscript resp ''data'')
                                 (\<lambda>d. py_subscript d ''session'') of
                            Inl e \<Rightarrow> (False, c, sent')
                          | Inr s \<Rightarrow>
                              (case py_slice_to s 20 of
                                 Inl e \<Rightarrow> (False, c\<lparr>session_id := s\<rparr>, sent')
                               | Inr _ \<Rightarrow> (True, c\<lparr>session_id := s\<rparr>, sent'))))
               else (False, c, sent')))"

text \<open>The endpoint methods are \<^verbatim>\<open>self._request("GET", url)\<close>.\<close>

definition api_get ::
  "pylib \<Rightarrow> network \<Rightarrow> ApiClient \<Rightarrow> string \<Rightarrow> request list \<Rightarrow> (exn + json) \<times> request list" where
  "api_get L net c path = api_request L net c ''GET'' (BACKEND_URL @ path) JNull"



text \<open>The list \<^verbatim>\<open>endpoints\<close> of \<^verbatim>\<open>eft_api_client.main\<close>.\<close>

definition api_endpoints :: "pylib \<Rightarrow> network \<Rightarrow> ApiClient \<Rightarrow> (request list) catalog" where
  "api_endpoints L net c =
     [(''globals'', api_get L net c ''/client/globals''),
      (''items'', api_get L net c ''/client/items''),
      (''locations'', api_get L net c ''/client/locations''),
      (''locale_en'', api_get L net c (''/client/locale/'' @ ''en'')),
      (''achievements'', api_get L net c ''/client/achievement/list''),
      (''achievement_stats'', api_get L net c ''/client/achievement/statistic''),
      (''hideout_areas'', api_get L net c ''/client/hideout/areas''),
      (''hideout_settings'', api_get L net c ''/client/hideout/settings''),
      (''hideout_recipes'', api_get L net c ''/client/hideout/production/recipes''),
      (''customization'', api_get L net c ''/client/customization''),
      (''survey'', api_get L net c ''/client/survey'')]"

section \<open>tarkov\_api\_client.py\<close>

definition API_URL :: string where
  "API_URL = ''https://api.tarkov.dev/graphql''"

definition tarkov_session_headers :: "(string \<times> json) list" where
  "tarkov_session_headers =
     [(''Content-Type'', JStr ''application/json''), (''Accept'', JStr ''application/json'')]"

text \<open>\<^verbatim>\<open>response.raise_for_status()\<close>: an HTTPError for a status from 400 to 599.\<close>

definition raise_for_status :: "response \<Rightarrow> exn + unit" where
  "raise_for_status r =
     (if 400 \<le> status_code r \<and> status_code r < 600
      then Inl (Exn HTTPError ''Client or Server Error'')
      else Inr ())"

text \<open>\<^verbatim>\<open>TarkovDevClient._query\<close>\<close>

definition tarkov_query ::
  "network \<Rightarrow> string \<Rightarrow> json \<Rightarrow> request list \<Rightarrow> (exn + json) \<times> request list" where
  "tarkov_query net query variables sent =
     (let payload = JDict ([(''query'', JStr query)]
                           @ (if py_truthy variables then [(''variables'', variables)] else []))
      in case http_send net sent
                \<lparr>req_method = POST, req_url = API_URL, req_headers = tarkov_session_headers,
                 req_json = Some payload\<rparr> of
           (Inl e, sent') \<Rightarrow> (Inl e, sent')
         | (Inr r, sent') \<Rightarrow>
             (and_then (raise_for_status r)
                (\<lambda>_. case resp_json r of
                        Some v \<Rightarrow> Inr v
                      | None \<Rightarrow> Inl (resp_json_error r)),
              sent'))"

text \<open>\<^verbatim>\<open>result.get("data", {}).get(field, default)\<close>, the last line of every query method.\<close>

definition data_get :: "json \<Rightarrow> string \<Rightarrow> json \<Rightarrow> exn + json" where
  "data_get result field dflt =
     and_then (py_get result ''data'' (JDict [])) (\<lambda>d. py_get d field dflt)"

text \<open>
  The GraphQL documents of the query methods, with the line breaks and indentation of
  the source collapsed to single spaces.
\<close>

definition get_all_items_query :: string where
  "get_all_items_query =
     ''query GetItems($lang: LanguageCode) { items(lang: $lang) { id name ''
     @ ''shortName description basePrice width height weight types ''
     @ ''categories { id name } wikiLink iconLink gridImageLink ''
     @ ''image512pxLink } }''"

definition get_item_by_id_query :: string where
  "get_item_by_id_query =
     ''query GetItem($id: ID!, $lang: LanguageCode) { item(id: $id, lang: ''
     @ ''$lang) { id name shortName description basePrice width height ''
     @ ''weight types wikiLink iconLink } }''"

definition search_items_query :: string where
  "search_items_query =
     ''query SearchItems($name: String!, $lang: LanguageCode) { ''
     @ ''items(name: $name, lang: $lang) { id name shortName basePrice ''
     @ ''iconLink } }''"

definition get_all_maps_query :: string where
  "get_all_maps_query =
     ''query GetMaps($lang: LanguageCode) { maps(lang: $lang) { id name ''
     @ ''normalizedName description wiki enemies raidDuration players ''
     @ ''bosses { name normalizedName spawnChance spawnLocations { name ''
     @ ''chance } } spawns { zoneName position { x y z } sides categories } ''
     @ ''extracts { id name faction switches { id name } } } }''"

definition get_all_traders_query :: string where
  "get_all_traders_query =
     ''query GetTraders($lang: LanguageCode) { traders(lang: $lang) { id ''
     @ ''name normalizedName description imageLink currency { id name } ''
     @ ''resetTime levels { id level requiredPlayerLevel requiredReputation ''
     @ ''requiredCommerce } } }''"

definition get_all_tasks_query :: string where
  "get_all_tasks_query =
     ''query GetTasks($lang: LanguageCode) { tasks(lang: $lang) { id name ''
     @ ''trader { id name } map { id name } experience minPlayerLevel ''
     @ ''wikiLink objectives { id type description optional } } }''"

definition get_hideout_stations_query :: string where
  "get_hideout_stations_query =
     ''query GetHideout($lang: LanguageCode) { hideoutStations(lang: ''
     @ ''$lang) { id name normalizedName levels { id level constructionTime ''
     @ ''itemRequirements { item { id name } count } crafts { id duration ''
     @ ''rewardItems { item { id name } count } requiredItems { item { id ''
     @ ''name } count } } } } }''"

definition get_all_bosses_query :: string where
  "get_all_bosses_query =
     ''query GetBosses($lang: LanguageCode) { bosses(lang: $lang) { name ''
     @ ''normalizedName health { id max } equipment { item { id name } } } ''
     @ ''}''"

definition get_all_ammo_query :: string where
  "get_all_ammo_query =
     ''query GetAmmo($lang: LanguageCode) { ammo(lang: $lang) { item { id ''
     @ ''name shortName } caliber damage armorDamage penetrationPower ''
     @ ''penetrationChance ricochetChance fragmentationChance ''
     @ ''projectileCount tracer tracerColor } }''"

definition get_barters_query :: string where
  "get_barters_query =
     ''query GetBarters($lang: LanguageCode) { barters(lang: $lang) { id ''
     @ ''trader { id name } level rewardItems { item { id name } count } ''
     @ ''requiredItems { item { id name } count } } }''"

definition get_flea_prices_query :: string where
  "get_flea_prices_query =
     ''query GetPrices($ids: [ID!]) { items(ids: $ids) { id name ''
     @ ''avg24hPrice low24hPrice high24hPrice lastLowPrice changeLast48h ''
     @ ''changeLast48hPercent } }''"

definition all_prices_query :: string where
  "all_prices_query =
     ''{ items { id name avg24hPrice low24hPrice high24hPrice ''
     @ ''lastLowPrice } }''"

text \<open>The query methods.\<close>

definition get_all_items :: "network \<Rightarrow> string \<Rightarrow> request list \<Rightarrow> (exn + json) \<times> request list" where
  "get_all_items net lang sent =
     (case tarkov_query net get_all_items_query
             (JDict [(''lang'', JStr lang)]) sent of
        (res, sent') \<Rightarrow> (and_then res (\<lambda>result. data_get result ''items'' (JList [])), sent'))"

definition get_item_by_id ::
  "network \<Rightarrow> string \<Rightarrow> string \<Rightarrow> request list \<Rightarrow> (exn + json) \<times> request list" where
  "get_item_by_id net item_id lang sent =
     (case tarkov_query net
             get_item_by_id_query
             (JDict [(''id'', JStr item_id), (''lang'', JStr lang)]) sent of
        (res, sent') \<Rightarrow> (and_then res (\<lambda>result. data_get result ''item'' JNull), sent'))"

definition search_items ::
  "network \<Rightarrow> string \<Rightarrow> string \<Rightarrow> request list \<Rightarrow> (exn + json) \<times> request list" where
  "search_items net name lang sent =
     (case tarkov_query net
             search_items_query
             (JDict [(''name'', JStr name), (''lang'', JStr lang)]) sent of
        (res, sent') \<Rightarrow> (and_then res (\<lambda>result. data_get result ''items'' (JList [])), sent'))"

definition get_all_maps :: "network \<Rightarrow> string \<Rightarrow> request list \<Rightarrow> (exn + json) \<times> request list" where
  "get_all_maps net lang sent =
     (case tarkov_query net get_all_maps_query
             (JDict [(''lang'', JStr lang)]) sent of
        (res, sent') \<Rightarrow> (and_then res (\<lambda>result. data_get result ''maps'' (JList [])), sent'))"

definition get_all_traders :: "network \<Rightarrow> string \<Rightarrow> request list \<Rightarrow> (exn + json) \<times> request list" where
  "get_all_traders net lang sent =
     (case tarkov_query net get_all_traders_query
             (JDict [(''lang'', JStr lang)]) sent of
        (res, sent') \<Rightarrow> (and_then res (\<lambda>result. data_get result ''traders'' (JList [])), sent'))"

definition get_all_tasks :: "network \<Rightarrow> string \<Rightarrow> request list \<Rightarrow> (exn + json) \<times> request list" where
  "get_all_tasks net lang sent =
     (case tarkov_query net get_all_tasks_query
             (JDict [(''lang'', JStr lang)]) sent of
        (res, sent') \<Rightarrow> (and_then res (\<lambda>result. data_get result ''tasks'' (JList [])), sent'))"

definition get_hideout_stations ::
  "network \<Rightarrow> string \<Rightarrow> request list \<Rightarrow> (exn + json) \<times> request list" where
  "get_hideout_stations net lang sent =
     (case tarkov_query net
             get_hideout_stations_query
             (JDict [(''lang'', JStr lang)]) sent of
        (res, sent') \<Rightarrow>
          (and_then res (\<lambda>result. data_get result ''hideoutStations'' (JList [])), sent'))"

definition get_all_bosses :: "network \<Rightarrow> string \<Rightarrow> request list \<Rightarrow> (exn + json) \<times> request list" where
  "get_all_bosses net lang sent =
     (case tarkov_query net get_all_bosses_query
             (JDict [(''lang'', JStr lang)]) sent of
        (res, sent') \<Rightarrow> (and_then res (\<lambda>result. data_get result ''bosses'' (JList [])), sent'))"

definition get_all_ammo :: "network \<Rightarrow> string \<Rightarrow> request list \<Rightarrow> (exn + json) \<times> request list" where
  "get_all_ammo net lang sent =
     (case tarkov_query net get_all_ammo_query
             (JDict [(''lang'', JStr lang)]) sent of
        (res, sent') \<Rightarrow> (and_then res (\<lambda>result. data_get result ''ammo'' (JList [])), sent'))"

definition get_barters :: "network \<Rightarrow> string \<Rightarrow> request list \<Rightarrow> (exn + json) \<times> request list" where
  "get_barters net lang sent =
     (case tarkov_query net get_barters_query
             (JDict [(''lang'', JStr lang)]) sent of
        (res, sent') \<Rightarrow> (and_then res (\<lambda>result. data_get result ''barters'' (JList [])), sent'))"

text \<open>
  \<^verbatim>\<open>get_flea_prices(item_ids)\<close>: \<open>item_ids\<close> is \<^verbatim>\<open>None\<close> or a list of ids; a truthy one
  is sent as the variable \<^verbatim>\<open>ids\<close>, otherwise the query has no variables.
\<close>

definition get_flea_prices :: "network \<Rightarrow> json \<Rightarrow> request list \<Rightarrow> (exn + json) \<times> request list" where
  "get_flea_prices net item_ids sent =
     (case (if py_truthy item_ids
            then tarkov_query net get_flea_prices_query
                   (JDict [(''ids'', item_ids)]) sent
            else tarkov_query net all_prices_query JNull sent) of
        (res, sent') \<Rightarrow> (and_then res (\<lambda>result. data_get result ''items'' (JList [])), sent'))"



text \<open>The list \<^verbatim>\<open>datasets\<close> of \<^verbatim>\<open>tarkov_api_client.main\<close>.\<close>

definition tarkov_datasets :: "network \<Rightarrow> string \<Rightarrow> (request list) catalog" where
  "tarkov_datasets net lang =
     [(''items'', get_all_items net lang),
      (''maps'', get_all_maps net lang),
      (''traders'', get_all_traders net lang),
      (''tasks'', get_all_tasks net lang),
      (''hideout'', get_hideout_stations net lang),
      (''bosses'', get_all_bosses net lang),
      (''ammo'', get_all_ammo net lang),
      (''barters'', get_barters net lang)]"

section \<open>Predicates of the properties\<close>

text \<open>A group of \<open>n\<close> lowercase hexadecimal characters.\<close>

definition lower_hex :: "char \<Rightarrow> bool" where
  "lower_hex c = (c \<in> set ''0123456789abcdef'')"

definition hex_group :: "nat \<Rightarrow> string \<Rightarrow> bool" where
  "hex_group n s = (length s = n \<and> list_all lower_hex s)"

text \<open>The network that answers every request with the response \<open>r\<close>.\<close>

definition answers :: "response \<Rightarrow> network" where
  "answers r = (\<lambda>sent req. Inr r)"




text \<open>
  A small stand-in library for the examples: a compressed body is the byte 0x78 before
  the data; the codecs know the texts \<^verbatim>\<open>{}\<close>, \<^verbatim>\<open><\<close>, \<^verbatim>\<open>E\<close> and \<^verbatim>\<open>L\<close>; the parser reads
  \<^verbatim>\<open>{}\<close> as the empty object and, as abbreviations, \<^verbatim>\<open>E\<close> as an error reply and
  \<^verbatim>\<open>L\<close> as a login reply, and rejects every other text with a JSONDecodeError; every
  value is dumped as \<^verbatim>\<open>{}\<close>; the digest is the length of the input.
\<close>

definition stub_lib :: pylib where
  "stub_lib =
     \<lparr>zlib_decompress = (\<lambda>b. case b of [] \<Rightarrow> None | x # xs \<Rightarrow> if x = 0x78 then Some xs else None),
      zlib_compress = (\<lambda>b. 0x78 # b),
      bytes_decode = (\<lambda>b. if b = [0x7B, 0x7D] then Some ''{}''
                           else if b = [0x3C] then Some ''<''
                           else if b = [0x45] then Some ''E''
                           else if b = [0x4C] then Some ''L'' else None),
      str_encode = (\<lambda>s. if s = ''{}'' then [0x7B, 0x7D] else if s = ''<'' then [0x3C] else []),
      json_loads = (\<lambda>s. if s = ''{}'' then Some (JDict [])
                         else if s = ''E'' then Some (JDict [(''err'', JInt 1)])
                         else if s = ''L''
                         then Some (JDict [(''err'', JInt 0),
                                           (''data'', JDict [(''access_token'', JStr ''tok'')])])
                         else None),
      json_error = (\<lambda>s. Exn JSONDecodeError ''Expecting value''),
      json_dumps = (\<lambda>v. ''{}''),
      json_dump = (\<lambda>v. Inr ''{}''),
      py_format = (\<lambda>v. case v of JStr s \<Rightarrow> s | _ \<Rightarrow> ''None''),
      md5 = (\<lambda>b. of_nat (length b))\<rparr>"

text \<open>
  Example values: a launcher before login; an uncompressed \<^verbatim>\<open>{}\<close> with status 500 and
  with status 200; the compressed \<^verbatim>\<open>{}\<close>; an HTML page; a compressed error reply and a
  compressed login reply. In each response the text is the body read as text and
  \<open>resp_json\<close> is the body read as JSON.
\<close>

definition no_json :: exn where
  "no_json = Exn JSONDecodeError ''Expecting value''"

definition test_launcher :: EFTLauncher where
  "test_launcher =
     \<lparr>email = ''a@b.c'', password = ''pw'', launcher_version = ''14.7.2.4271'',
      client_version = ''1.0.1.0.42625'', unity_version = ''2021.3.16f1'',
      token = JNull, game_session = JNull, storage_path = ''.eft_storage/0'',
      hw_code = ''#1-0''\<rparr>"

definition server_error :: response where
  "server_error =
     \<lparr>status_code = 500, content = [0x7B, 0x7D], resp_text = ''{}'',
      resp_json = Some (JDict []), resp_json_error = no_json\<rparr>"

definition compressed_empty :: response where
  "compressed_empty =
     \<lparr>status_code = 200, content = [0x78, 0x7B, 0x7D], resp_text = ''x{}'',
      resp_json = None, resp_json_error = no_json\<rparr>"

definition no_data_reply :: response where
  "no_data_reply =
     \<lparr>status_code = 200, content = [0x7B, 0x7D], resp_text = ''{}'',
      resp_json = Some (JDict []), resp_json_error = no_json\<rparr>"




text \<open>
  Three more responses, none of them compressed. A page of 600 times the letter e with
  an acute accent, sent as UTF-8. A login reply whose token is a number, with the body
  \<^verbatim>\<open>{"err":0,"data":{"access_token":12345}}\<close>. A GraphQL reply with status 400 and
  the body \<^verbatim>\<open>{"errors":[]}\<close>.
\<close>

definition dq :: string where
  "dq = [CHR 0x22]"



definition bad_request :: response where
  "bad_request =
     \<lparr>status_code = 400,
      content = [0x7B, 0x22, 0x65, 0x72, 0x72, 0x6F, 0x72, 0x73, 0x22, 0x3A, 0x5B, 0x5D, 0x7D],
      resp_text = ''{'' @ dq @ ''errors'' @ dq @ '':[]}'',
      resp_json = Some (JDict [(''errors'', JList [])]),
      resp_json_error = no_json\<rparr>"

text \<open>
  A GraphQL body without the \<^verbatim>\<open>data\<close> key, or whose \<^verbatim>\<open>data\<close> object has no field
  \<open>f\<close>.
\<close>

definition lacks_field :: "json \<Rightarrow> string \<Rightarrow> bool" where
  "lacks_field body f =
     (case body of
        JDict kvs \<Rightarrow>
          (case map_of kvs ''data'' of
             None \<Rightarrow> True
           | Some (JDict d) \<Rightarrow> map_of d f = None
           | Some _ \<Rightarrow> False)
      | _ \<Rightarrow> False)"

text \<open>The value of the header \<^verbatim>\<open>GClient-RequestId\<close> of a request, if it has one.\<close>

definition request_id_header :: "request \<Rightarrow> json option" where
  "request_id_header req = map_of (req_headers req) ''GClient-RequestId''"

text \<open>
  A catalog whose functions are calls of \<^verbatim>\<open>EFTClient._request\<close>, as all the endpoint
  methods are: each entry gives the name, the endpoint path and the data.
\<close>

definition client_catalog ::
  "pylib \<Rightarrow> network \<Rightarrow> (string \<times> string \<times> json) list \<Rightarrow> client_state catalog" where
  "client_catalog L net specs =
     map (\<lambda>(name, endpoint, data). (name, client_request L net endpoint data)) specs"

text \<open>Reading a decimal numeral back, to tell the strings of two counters apart.\<close>

definition digit_val :: "char \<Rightarrow> nat" where
  "digit_val c = of_char c - 48"

definition nat_of_str :: "string \<Rightarrow> nat" where
  "nat_of_str s = foldl (\<lambda>a c. 10 * a + digit_val c) 0 s"





section \<open>The device identifier\<close>

lemma hex_digit_lower: "d < 16 \<Longrightarrow> lower_hex (hex_digit d)"
proof -
  assume "d < 16"
  then have "d \<in> {0,1,2,3,4,5,6,7,8,9,10,11,12,13,14,15}" by (simp; arith)
  then show ?thesis
    by (auto simp: hex_digit_def lower_hex_def)
qed

lemma nibble_bound: "unat ((w :: 128 word) AND 15) < 16"
proof -
  have "w AND 15 \<le> 15" by (rule word_and_le1)
  then have "unat (w AND 15) \<le> unat (15 :: 128 word)" by (simp add: word_le_nat_alt)
  then show ?thesis by simp
qed

lemma length_hexdigest: "length (hexdigest w) = 32"
  by (simp add: hexdigest_def)

lemma hexdigest_lower: "list_all lower_hex (hexdigest w)"
  by (simp add: hexdigest_def list_all_iff hex_digit_lower nibble_bound)

lemma hex_group_hexdigest: "hex_group 32 (hexdigest w)"
  by (simp add: hex_group_def length_hexdigest hexdigest_lower)

lemma hex_group_take: "hex_group 24 (take 24 (hexdigest w))"
  using hexdigest_lower [of w]
  by (auto simp: hex_group_def length_hexdigest list_all_iff dest: in_set_takeD)

lemma random_md5s_3:
  "random_md5s L 3 rng =
     ([hexdigest (md5 L (shd rng)), hexdigest (md5 L (shd (stl rng))),
       hexdigest (md5 L (shd (stl (stl rng))))], stl (stl (stl rng)))"
  by (simp add: numeral_eq_Suc random_md5_def token_bytes_def)

lemma random_md5s_4:
  "random_md5s L 4 rng =
     ([hexdigest (md5 L (shd rng)), hexdigest (md5 L (shd (stl rng))),
       hexdigest (md5 L (shd (stl (stl rng)))), hexdigest (md5 L (shd (stl (stl (stl rng)))))],
      stl (stl (stl (stl rng))))"
  by (simp add: numeral_eq_Suc random_md5_def token_bytes_def)

text \<open>
  C8. Whatever the digest function and the entropy, a freshly generated device identifier
  is \<^verbatim>\<open>#1-\<close>, three groups of 32 lowercase hexadecimal characters joined by colons, a
  dash, four such groups joined by dashes, a dash, and a group of 24.
\<close>

theorem generate_hw_code_format:
  "\<exists>g1 g2 g3 g4 g5 g6 g7 g8.
     fst (generate_hw_code L rng) =
       ''#1-'' @ g1 @ '':'' @ g2 @ '':'' @ g3 @ ''-'' @ g4 @ ''-'' @ g5 @ ''-'' @ g6
       @ ''-'' @ g7 @ ''-'' @ g8
     \<and> hex_group 32 g1 \<and> hex_group 32 g2 \<and> hex_group 32 g3 \<and> hex_group 32 g4
     \<and> hex_group 32 g5 \<and> hex_group 32 g6 \<and> hex_group 32 g7 \<and> hex_group 24 g8"
  apply (simp add: generate_hw_code_def random_md5s_3 random_md5s_4 random_md5_def token_bytes_def)
  apply (intro exI conjI)
          apply (rule refl)
         apply (rule hex_group_hexdigest hex_group_take)+
  done

section \<open>The decode path of the request helpers\<close>

lemma fst_api_request_answers:
  "fst (api_request L (answers r) c meth url data sent) = api_decode L r"
  by (simp add: api_request_def answers_def http_send_def Let_def)

lemma fst_launcher_request_answers:
  "fst (launcher_request L (answers r) l sent url data h) = launcher_decode L r"
  by (simp add: launcher_request_def answers_def http_send_def Let_def)











lemma fst_client_request_answers:
  "fst (client_request L (answers r) ep data (c, sent)) =
     (case client_decode L r of Inl e \<Rightarrow> Inr (error_dict e) | Inr v \<Rightarrow> Inr v)"
  by (simp add: client_request_def answers_def http_send_def client_headers_def Let_def
        split: sum.splits)

lemma fst_tarkov_query_answers:
  "fst (tarkov_query (answers r) q vars sent) =
     and_then (raise_for_status r)
       (\<lambda>_. case resp_json r of Some v \<Rightarrow> Inr v | None \<Rightarrow> Inl (resp_json_error r))"
  by (simp add: tarkov_query_def answers_def http_send_def Let_def)

text \<open>
  C4, as stated, fails for \<^verbatim>\<open>TarkovDevClient._query\<close>: a response with status 500 and a
  JSON body is not returned; \<^verbatim>\<open>raise_for_status\<close> raises an HTTPError.
\<close>

theorem query_fails_on_error_status:
  "fst (tarkov_query (answers server_error) all_prices_query JNull []) =
     Inl (Exn HTTPError ''Client or Server Error'')"
  by (simp add: fst_tarkov_query_answers raise_for_status_def server_error_def)

text \<open>
  C4, amended. \<^verbatim>\<open>EFTLauncher._request\<close> does not look at the status code: whatever the
  status, a body that is JSON (raw or compressed) is returned parsed, and the result does
  not change with the status. \<^verbatim>\<open>TarkovDevClient._query\<close> raises an HTTPError for a status
  from 400 to 599 and returns the parsed body for any other status.
\<close>

theorem status_code_handling:
  "(zlib_decompress L (content r) = None \<and> resp_json r = Some v \<longrightarrow>
      fst (launcher_request L (answers r) l sent url data h) = Inr v)
   \<and> (zlib_decompress L (content r) = Some b \<and> bytes_decode L b = Some t
        \<and> json_loads L t = Some v \<longrightarrow>
      fst (launcher_request L (answers r) l sent url data h) = Inr v)
   \<and> (resp_json r \<noteq> None \<or> zlib_decompress L (content r) \<noteq> None \<longrightarrow>
      launcher_decode L (r\<lparr>status_code := s\<rparr>) = launcher_decode L r)
   \<and> (400 \<le> status_code r \<and> status_code r < 600 \<longrightarrow>
      fst (tarkov_query (answers r) q vars sent) = Inl (Exn HTTPError ''Client or Server Error''))
   \<and> (\<not> (400 \<le> status_code r \<and> status_code r < 600) \<and> resp_json r = Some v \<longrightarrow>
      fst (tarkov_query (answers r) q vars sent) = Inr v)"
  by (auto simp: fst_launcher_request_answers fst_tarkov_query_answers launcher_decode_def
        raise_for_status_def py_decode_def py_json_loads_def split: option.splits)

theorem status_code_handling_witness:
  "fst (launcher_request stub_lib (answers server_error) test_launcher [] ''u'' JNull False) =
     Inr (JDict [])
   \<and> fst (tarkov_query (answers server_error) all_prices_query JNull []) =
     Inl (Exn HTTPError ''Client or Server Error'')
   \<and> fst (tarkov_query (answers no_data_reply) all_prices_query JNull []) = Inr (JDict [])
   \<and> fst (launcher_request stub_lib (answers compressed_empty) test_launcher [] ''u'' JNull False) =
     Inr (JDict [])"
  using status_code_handling [where L = stub_lib and r = server_error
      and v = "JDict []" and l = test_launcher and sent = "[]"
      and url = "''u''" and data = JNull and h = False and q = all_prices_query and vars = JNull]
    status_code_handling [where L = stub_lib and r = no_data_reply
      and v = "JDict []" and l = test_launcher and sent = "[]"
      and url = "''u''" and data = JNull and h = False and q = all_prices_query and vars = JNull]
    status_code_handling [where L = stub_lib and r = compressed_empty
      and v = "JDict []" and b = "[0x7B, 0x7D]" and t = "''{}''" and l = test_launcher
      and sent = "[]" and url = "''u''" and data = JNull and h = False]
  by (simp add: stub_lib_def server_error_def no_data_reply_def compressed_empty_def)

text \<open>
  C5. For a value \<open>v\<close> that the library serialises, encodes and compresses reversibly,
  the response whose body is the compressed UTF-8 JSON text of \<open>v\<close> is decoded to \<open>v\<close>
  by \<^verbatim>\<open>_decompress_response\<close> and \<^verbatim>\<open>_request\<close> of eft\_api\_client, and by the two
  request helpers of eft\_bsg\_client.
\<close>

theorem decode_round_trip:
  assumes "json_loads L (json_dumps L v) = Some v"
    and "bytes_decode L (str_encode L (json_dumps L v)) = Some (json_dumps L v)"
    and "zlib_decompress L (zlib_compress L (str_encode L (json_dumps L v))) =
           Some (str_encode L (json_dumps L v))"
    and "content r = zlib_compress L (str_encode L (json_dumps L v))"
  shows "decompress_response L (content r) = Inr (json_dumps L v)
       \<and> fst (api_request L (answers r) c meth url data sent) = Inr v
       \<and> fst (launcher_request L (answers r) l sent url data h) = Inr v
       \<and> fst (client_request L (answers r) ep data (cl, sent)) = Inr v"
  using assms
  by (simp add: fst_api_request_answers fst_launcher_request_answers fst_client_request_answers
        api_decode_def decompress_response_def launcher_decode_def client_decode_def
        py_decode_def py_json_loads_def)

theorem decode_round_trip_witness:
  "fst (api_request stub_lib (answers compressed_empty) ApiClient_init ''GET'' ''u'' JNull []) =
     Inr (JDict [])"
  using decode_round_trip [where L = stub_lib and v = "JDict []" and r = compressed_empty
      and c = ApiClient_init and meth = "''GET''" and url = "''u''" and data = JNull
      and sent = "[]"]
  by (simp add: stub_lib_def compressed_empty_def)

section \<open>The query methods of tarkov\_api\_client\<close>

lemma data_get_lacks: "lacks_field body f \<Longrightarrow> data_get body f dflt = Inr dflt"
proof (cases body)
  case (JDict kvs)
  assume lf: "lacks_field body f"
  show ?thesis
  proof (cases "map_of kvs ''data''")
    case None
    with JDict show ?thesis by (simp add: data_get_def)
  next
    case (Some d)
    with JDict lf show ?thesis
      by (cases d) (simp_all add: data_get_def lacks_field_def)
  qed
qed (simp_all add: lacks_field_def)

lemma raise_for_status_error:
  "400 \<le> status_code r \<and> status_code r < 600 \<Longrightarrow>
   raise_for_status r = Inl (Exn HTTPError ''Client or Server Error'')"
  by (simp add: raise_for_status_def)

lemma raise_for_status_ok:
  "\<not> (400 \<le> status_code r \<and> status_code r < 600) \<Longrightarrow> raise_for_status r = Inr ()"
  by (auto simp: raise_for_status_def)

text \<open>
  C10, as stated, fails for a response with an error status: with status 400 and the
  body \<^verbatim>\<open>{"errors":[]}\<close>, which lacks the \<^verbatim>\<open>data\<close> key, \<^verbatim>\<open>get_all_items\<close> and
  \<^verbatim>\<open>get_item_by_id\<close> raise the HTTPError of \<^verbatim>\<open>_query\<close> instead of returning the empty
  list and \<^verbatim>\<open>None\<close>.
\<close>

theorem query_methods_raise_on_error_status:
  "resp_json bad_request = Some (JDict [(''errors'', JList [])])
   \<and> lacks_field (JDict [(''errors'', JList [])]) ''items''
   \<and> lacks_field (JDict [(''errors'', JList [])]) ''item''
   \<and> fst (get_all_items (answers bad_request) ''en'' []) =
       Inl (Exn HTTPError ''Client or Server Error'')
   \<and> fst (get_item_by_id (answers bad_request) ''5447a9cd4bdc2dbd208b4567'' ''en'' []) =
       Inl (Exn HTTPError ''Client or Server Error'')"
  by (simp add: get_all_items_def get_item_by_id_def case_prod_beta fst_tarkov_query_answers
        raise_for_status_def bad_request_def lacks_field_def)

text \<open>
  C10, amended. If the GraphQL answer has a status outside 400..599 and its JSON body is
  an object that lacks the \<^verbatim>\<open>data\<close> key, or whose \<^verbatim>\<open>data\<close> object lacks the queried
  field, every list-returning query method returns the empty list and
  \<^verbatim>\<open>get_item_by_id\<close> returns \<^verbatim>\<open>None\<close>. If the status is from 400 to 599, every query
  method raises the HTTPError of \<^verbatim>\<open>_query\<close>, whatever the body.
\<close>

theorem missing_data_gives_default:
  "(\<not> (400 \<le> status_code r \<and> status_code r < 600) \<and> resp_json r = Some body \<longrightarrow>
      (lacks_field body ''items'' \<longrightarrow>
            fst (get_all_items (answers r) lang sent) = Inr (JList [])
          \<and> fst (search_items (answers r) name lang sent) = Inr (JList [])
          \<and> fst (get_flea_prices (answers r) ids sent) = Inr (JList []))
       \<and> (lacks_field body ''maps'' \<longrightarrow> fst (get_all_maps (answers r) lang sent) = Inr (JList []))
       \<and> (lacks_field body ''traders'' \<longrightarrow>
            fst (get_all_traders (answers r) lang sent) = Inr (JList []))
       \<and> (lacks_field body ''tasks'' \<longrightarrow> fst (get_all_tasks (answers r) lang sent) = Inr (JList []))
       \<and> (lacks_field body ''hideoutStations'' \<longrightarrow>
            fst (get_hideout_stations (answers r) lang sent) = Inr (JList []))
       \<and> (lacks_field body ''bosses'' \<longrightarrow>
            fst (get_all_bosses (answers r) lang sent) = Inr (JList []))
       \<and> (lacks_field body ''ammo'' \<longrightarrow> fst (get_all_ammo (answers r) lang sent) = Inr (JList []))
       \<and> (lacks_field body ''barters'' \<longrightarrow> fst (get_barters (answers r) lang sent) = Inr (JList []))
       \<and> (lacks_field body ''item'' \<longrightarrow>
            fst (get_item_by_id (answers r) item_id lang sent) = Inr JNull))
   \<and> (400 \<le> status_code r \<and> status_code r < 600 \<longrightarrow>
        fst (get_all_items (answers r) lang sent) = Inl (Exn HTTPError ''Client or Server Error'')
      \<and> fst (search_items (answers r) name lang sent) = Inl (Exn HTTPError ''Client or Server Error'')
      \<and> fst (get_flea_prices (answers r) ids sent) = Inl (Exn HTTPError ''Client or Server Error'')
      \<and> fst (get_all_maps (answers r) lang sent) = Inl (Exn HTTPError ''Client or Server Error'')
      \<and> fst (get_all_traders (answers r) lang sent) = Inl (Exn HTTPError ''Client or Server Error'')
      \<and> fst (get_all_tasks (answers r) lang sent) = Inl (Exn HTTPError ''Client or Server Error'')
      \<and> fst (get_hideout_stations (answers r) lang sent) =
          Inl (Exn HTTPError ''Client or Server Error'')
      \<and> fst (get_all_bosses (answers r) lang sent) = Inl (Exn HTTPError ''Client or Server Error'')
      \<and> fst (get_all_ammo (answers r) lang sent) = Inl (Exn HTTPError ''Client or Server Error'')
      \<and> fst (get_barters (answers r) lang sent) = Inl (Exn HTTPError ''Client or Server Error'')
      \<and> fst (get_item_by_id (answers r) item_id lang sent) =
          Inl (Exn HTTPError ''Client or Server Error''))"
proof (intro conjI impI)
  assume a: "\<not> (400 \<le> status_code r \<and> status_code r < 600) \<and> resp_json r = Some body"
  then have ok: "raise_for_status r = Inr ()" and b: "resp_json r = Some body"
    by (simp_all add: raise_for_status_ok)
  show "lacks_field body ''items'' \<Longrightarrow> fst (get_all_items (answers r) lang sent) = Inr (JList [])"
    by (simp add: get_all_items_def data_get_lacks case_prod_beta fst_tarkov_query_answers ok b)
  show "lacks_field body ''items'' \<Longrightarrow> fst (search_items (answers r) name lang sent) = Inr (JList [])"
    by (simp add: search_items_def data_get_lacks case_prod_beta fst_tarkov_query_answers ok b)
  show "lacks_field body ''items'' \<Longrightarrow> fst (get_flea_prices (answers r) ids sent) = Inr (JList [])"
    by (simp add: get_flea_prices_def data_get_lacks case_prod_beta fst_tarkov_query_answers ok b)
  show "lacks_field body ''maps'' \<Longrightarrow> fst (get_all_maps (answers r) lang sent) = Inr (JList [])"
    by (simp add: get_all_maps_def data_get_lacks case_prod_beta fst_tarkov_query_answers ok b)
  show "lacks_field body ''traders'' \<Longrightarrow> fst (get_all_traders (answers r) lang sent) = Inr (JList [])"
    by (simp add: get_all_traders_def data_get_lacks case_prod_beta fst_tarkov_query_answers ok b)
  show "lacks_field body ''tasks'' \<Longrightarrow> fst (get_all_tasks (answers r) lang sent) = Inr (JList [])"
    by (simp add: get_all_tasks_def data_get_lacks case_prod_beta fst_tarkov_query_answers ok b)
  show "lacks_field body ''hideoutStations'' \<Longrightarrow>
        fst (get_hideout_stations (answers r) lang sent) = Inr (JList [])"
    by (simp add: get_hideout_stations_def data_get_lacks case_prod_beta
          fst_tarkov_query_answers ok b)
  show "lacks_field body ''bosses'' \<Longrightarrow> fst (get_all_bosses (answers r) lang sent) = Inr (JList [])"
    by (simp add: get_all_bosses_def data_get_lacks case_prod_beta fst_tarkov_query_answers ok b)
  show "lacks_field body ''ammo'' \<Longrightarrow> fst (get_all_ammo (answers r) lang sent) = Inr (JList [])"
    by (simp add: get_all_ammo_def data_get_lacks case_prod_beta fst_tarkov_query_answers ok b)
  show "lacks_field body ''barters'' \<Longrightarrow> fst (get_barters (answers r) lang sent) = Inr (JList [])"
    by (simp add: get_barters_def data_get_lacks case_prod_beta fst_tarkov_query_answers ok b)
  show "lacks_field body ''item'' \<Longrightarrow>
        fst (get_item_by_id (answers r) item_id lang sent) = Inr JNull"
    by (simp add: get_item_by_id_def data_get_lacks case_prod_beta fst_tarkov_query_answers ok b)
next
  assume "400 \<le> status_code r \<and> status_code r < 600"
  then have e: "raise_for_status r = Inl (Exn HTTPError ''Client or Server Error'')"
    by (rule raise_for_status_error)
  show "fst (get_all_items (answers r) lang sent) = Inl (Exn HTTPError ''Client or Server Error'')"
    by (simp add: get_all_items_def case_prod_beta fst_tarkov_query_answers e)
  show "fst (search_items (answers r) name lang sent) = Inl (Exn HTTPError ''Client or Server Error'')"
    by (simp add: search_items_def case_prod_beta fst_tarkov_query_answers e)
  show "fst (get_flea_prices (answers r) ids sent) = Inl (Exn HTTPError ''Client or Server Error'')"
    by (simp add: get_flea_prices_def case_prod_beta fst_tarkov_query_answers e)
  show "fst (get_all_maps (answers r) lang sent) = Inl (Exn HTTPError ''Client or Server Error'')"
    by (simp add: get_all_maps_def case_prod_beta fst_tarkov_query_answers e)
  show "fst (get_all_traders (answers r) lang sent) = Inl (Exn HTTPError ''Client or Server Error'')"
    by (simp add: get_all_traders_def case_prod_beta fst_tarkov_query_answers e)
  show "fst (get_all_tasks (answers r) lang sent) = Inl (Exn HTTPError ''Client or Server Error'')"
    by (simp add: get_all_tasks_def case_prod_beta fst_tarkov_query_answers e)
  show "fst (get_hideout_stations (answers r) lang sent) =
          Inl (Exn HTTPError ''Client or Server Error'')"
    by (simp add: get_hideout_stations_def case_prod_beta fst_tarkov_query_answers e)
  show "fst (get_all_bosses (answers r) lang sent) = Inl (Exn HTTPError ''Client or Server Error'')"
    by (simp add: get_all_bosses_def case_prod_beta fst_tarkov_query_answers e)
  show "fst (get_all_ammo (answers r) lang sent) = Inl (Exn HTTPError ''Client or Server Error'')"
    by (simp add: get_all_ammo_def case_prod_beta fst_tarkov_query_answers e)
  show "fst (get_barters (answers r) lang sent) = Inl (Exn HTTPError ''Client or Server Error'')"
    by (simp add: get_barters_def case_prod_beta fst_tarkov_query_answers e)
  show "fst (get_item_by_id (answers r) item_id lang sent) =
          Inl (Exn HTTPError ''Client or Server Error'')"
    by (simp add: get_item_by_id_def case_prod_beta fst_tarkov_query_answers e)
qed

theorem missing_data_gives_default_witness:
  "fst (get_all_items (answers no_data_reply) ''en'' []) = Inr (JList [])
   \<and> fst (get_barters (answers no_data_reply) ''en'' []) = Inr (JList [])
   \<and> fst (get_item_by_id (answers no_data_reply) ''5447a9cd4bdc2dbd208b4567'' ''en'' []) = Inr JNull
   \<and> fst (get_all_maps (answers bad_request) ''en'' []) =
       Inl (Exn HTTPError ''Client or Server Error'')"
  using missing_data_gives_default [where r = no_data_reply and body = "JDict []"
      and lang = "''en''" and sent = "[]" and item_id = "''5447a9cd4bdc2dbd208b4567''"]
    missing_data_gives_default [where r = bad_request and lang = "''en''" and sent = "[]"]
  by (simp add: no_data_reply_def bad_request_def lacks_field_def)

section \<open>The lifecycle calls of EFTLauncher\<close>
















section \<open>The password digest\<close>

lemma snd_launcher_request:
  "snd (launcher_request L net l sent url data h) =
     sent @ [post_or_get url (if h then launcher_client_headers L l else launcher_headers l) data]"
  by (simp add: launcher_request_def http_send_def Let_def split: sum.splits)

lemma snd_api_request:
  "snd (api_request L net c meth url data sent) =
     sent @ [if meth = ''POST'' \<and> py_truthy data
             then \<lparr>req_method = POST, req_url = url,
                   req_headers = api_session_headers @
                     (if py_truthy (session_id c)
                      then [(''Cookie'', JStr (''PHPSESSID='' @ py_format L (session_id c)))]
                      else []),
                   req_json = Some data\<rparr>
             else \<lparr>req_method = GET, req_url = url,
                   req_headers = api_session_headers @
                     (if py_truthy (session_id c)
                      then [(''Cookie'', JStr (''PHPSESSID='' @ py_format L (session_id c)))]
                      else []),
                   req_json = None\<rparr>]"
  by (simp add: api_request_def http_send_def Let_def split: sum.splits)

lemma login_sent:
  "snd (snd (login L net l sent)) =
     snd (launcher_request L net l sent (login_url l) (login_data L l) False)"
  by (cases "launcher_request L net l sent (login_url l) (login_data L l) False")
     (simp add: login_def split: sum.splits bool.splits)

lemma api_login_sent:
  "snd (snd (api_login L net c em pw sent)) =
     snd (api_request L net c ''POST'' (LAUNCHER_URL @ ''/launcher/login'')
            (api_login_data L em pw) sent)"
  by (cases "api_request L net c ''POST'' (LAUNCHER_URL @ ''/launcher/login'')
            (api_login_data L em pw) sent")
     (simp add: api_login_def split: sum.splits bool.splits)

lemma login_data_truthy: "py_truthy (login_data L l)"
  by (simp add: login_data_def)

lemma api_login_data_truthy: "py_truthy (api_login_data L em pw)"
  by (simp add: api_login_data_def)

text \<open>
  C9. The one request \<^verbatim>\<open>login\<close> sends, in both vendor clients, carries under
  \<^verbatim>\<open>pass\<close> the hexdigest of the MD5 digest of the encoded password: 32 lowercase
  hexadecimal characters, a function of the password alone.
\<close>

theorem login_transmits_password_digest:
  "(\<exists>req. snd (snd (login L net l sent)) = sent @ [req]
         \<and> req_json req = Some (login_data L l))
   \<and> py_subscript (login_data L l) ''pass'' =
        Inr (JStr (hexdigest (md5 L (str_encode L (password l)))))
   \<and> (\<exists>req. snd (snd (api_login L net c em pw sent)) = sent @ [req]
         \<and> req_json req = Some (api_login_data L em pw))
   \<and> py_subscript (api_login_data L em pw) ''pass'' =
        Inr (JStr (hexdigest (md5 L (str_encode L pw))))
   \<and> hex_group 32 (hexdigest (md5 L (str_encode L pw)))
   \<and> md5_password L l = compute_password_hash L (password l)"
proof -
  have "req_json (post_or_get (login_url l) (launcher_headers l) (login_data L l)) =
          Some (login_data L l)"
    by (simp add: post_or_get_def login_data_truthy)
  then have a: "\<exists>req. snd (snd (login L net l sent)) = sent @ [req]
                  \<and> req_json req = Some (login_data L l)"
    by (simp add: login_sent snd_launcher_request)
  have b: "\<exists>req. snd (snd (api_login L net c em pw sent)) = sent @ [req]
             \<and> req_json req = Some (api_login_data L em pw)"
    by (simp add: api_login_sent snd_api_request api_login_data_truthy)
  have c: "py_subscript (login_data L l) ''pass'' =
             Inr (JStr (hexdigest (md5 L (str_encode L (password l)))))"
    by (simp add: login_data_def md5_password_def)
  have d: "py_subscript (api_login_data L em pw) ''pass'' =
             Inr (JStr (hexdigest (md5 L (str_encode L pw))))"
    by (simp add: api_login_data_def compute_password_hash_def)
  have e: "md5_password L l = compute_password_hash L (password l)"
    by (simp add: md5_password_def compute_password_hash_def)
  from a b c d e show ?thesis
    using hex_group_hexdigest by blast
qed

section \<open>The request counter\<close>

lemma digit_val_digit_char: "d < 10 \<Longrightarrow> digit_val (digit_char d) = d"
proof -
  assume "d < 10"
  then have "d \<in> {0,1,2,3,4,5,6,7,8,9}" by (simp; arith)
  then show ?thesis by (auto simp: digit_val_def digit_char_def)
qed

lemma nat_of_str_snoc: "nat_of_str (s @ [c]) = 10 * nat_of_str s + digit_val c"
  by (simp add: nat_of_str_def)

lemma nat_of_str_of_nat: "nat_of_str (str_of_nat n) = n"
proof (induction n rule: str_of_nat.induct)
  case (1 n)
  show ?case
  proof (cases "n < 10")
    case True
    then show ?thesis
      by (subst str_of_nat.simps) (simp add: nat_of_str_def digit_val_digit_char)
  next
    case False
    with 1 have "nat_of_str (str_of_nat (n div 10)) = n div 10" by simp
    with False show ?thesis
      by (subst str_of_nat.simps) (simp add: nat_of_str_snoc digit_val_digit_char)
  qed
qed

lemma str_of_nat_inj: "str_of_nat m = str_of_nat n \<Longrightarrow> m = n"
  by (metis nat_of_str_of_nat)

lemma client_headers_id:
  "map_of (fst (client_headers L c)) ''GClient-RequestId'' =
     Some (JStr (str_of_nat (Suc (request_id c))))"
  by (simp add: client_headers_def launcher_client_headers_def Let_def)

lemma client_request_state:
  "snd (client_request L net ep data (c, sent)) =
     (c\<lparr>request_id := Suc (request_id c)\<rparr>,
      sent @ [post_or_get (PROD_URL @ ep) (fst (client_headers L c)) data])"
  by (simp add: client_request_def client_headers_def http_send_def Let_def
        split: sum.splits)

lemma request_id_header_post_or_get:
  "request_id_header (post_or_get url hs data) = map_of hs ''GClient-RequestId''"
  by (simp add: request_id_header_def post_or_get_def)

lemma bsg_entry_state: "fst (snd (bsg_entry L (name, func) st fs)) = snd (func st)"
  by (cases "func st") (simp add: bsg_entry_def case_prod_beta split: sum.splits)

lemma loop_requests:
  "\<exists>new. snd (fst (snd (bsg_main_loop L (client_catalog L net specs) (c, sent) fs))) = sent @ new
       \<and> map request_id_header new =
           map (\<lambda>k. Some (JStr (str_of_nat k)))
             [Suc (request_id c)..<Suc (request_id c) + length specs]
       \<and> request_id (fst (fst (snd (bsg_main_loop L (client_catalog L net specs) (c, sent) fs))))
           = request_id c + length specs"
proof (induction specs arbitrary: c sent fs)
  case Nil
  show ?case by (simp add: client_catalog_def)
next
  case (Cons spec specs)
  obtain name ep data where spec: "spec = (name, ep, data)" by (cases spec) auto
  define c1 where "c1 = c\<lparr>request_id := Suc (request_id c)\<rparr>"
  define req where "req = post_or_get (PROD_URL @ ep) (fst (client_headers L c)) data"
  obtain out st1 fs1 where e: "bsg_entry L (name, client_request L net ep data) (c, sent) fs = (out, st1, fs1)"
    by (cases "bsg_entry L (name, client_request L net ep data) (c, sent) fs") auto
  have "st1 = snd (client_request L net ep data (c, sent))"
    using bsg_entry_state [of L name "client_request L net ep data" "(c, sent)" fs] e by simp
  then have st1: "st1 = (c1, sent @ [req])"
    by (simp add: client_request_state c1_def req_def)
  from Cons.IH [of c1 "sent @ [req]" fs1] obtain new where
    new: "snd (fst (snd (bsg_main_loop L (client_catalog L net specs) (c1, sent @ [req]) fs1)))
            = (sent @ [req]) @ new"
      "map request_id_header new =
         map (\<lambda>k. Some (JStr (str_of_nat k))) [Suc (request_id c1)..<Suc (request_id c1) + length specs]"
      "request_id (fst (fst (snd (bsg_main_loop L (client_catalog L net specs) (c1, sent @ [req]) fs1))))
         = request_id c1 + length specs"
    by blast
  define R where "R = bsg_main_loop L (client_catalog L net specs) (c1, sent @ [req]) fs1"
  have "bsg_main_loop L (client_catalog L net (spec # specs)) (c, sent) fs =
      (case R of (outs, st'', fs'') \<Rightarrow> ((name, out) # outs, st'', fs''))"
    using e st1 by (simp add: client_catalog_def spec R_def)
  then have A: "fst (snd (bsg_main_loop L (client_catalog L net (spec # specs)) (c, sent) fs)) =
      fst (snd R)"
    by (simp split: prod.splits)
  have hdr: "request_id_header req = Some (JStr (str_of_nat (Suc (request_id c))))"
    by (simp add: req_def request_id_header_post_or_get client_headers_id)
  have upt: "[Suc (request_id c)..<Suc (request_id c) + length (spec # specs)] =
               Suc (request_id c) # [Suc (request_id c1)..<Suc (request_id c1) + length specs]"
    by (subst upt_rec) (simp add: c1_def)
  have 1: "snd (fst (snd R)) = sent @ (req # new)"
    using new(1) by (simp add: R_def)
  have 2: "map request_id_header (req # new) =
             map (\<lambda>k. Some (JStr (str_of_nat k)))
               [Suc (request_id c)..<Suc (request_id c) + length (spec # specs)]"
    unfolding upt using hdr new(2) by simp
  have 3: "request_id (fst (fst (snd R))) = request_id c + length (spec # specs)"
    using new(3) by (simp add: R_def c1_def)
  from 1 2 3 show ?case
    unfolding A by blast
qed

lemma bsg_endpoints_catalog:
  "bsg_endpoints L net =
     client_catalog L net
       [(''globals'', ''/client/globals'', JNull),
        (''items'', ''/client/items'', JNull),
        (''locale_en'', ''/client/locale/en'', JNull),
        (''achievements'', ''/client/achievement/list'', JNull),
        (''achievement_stats'', ''/client/achievement/statistic'', JNull),
        (''survey'', ''/client/survey'', JNull),
        (''locations'', ''/client/locations'', JNull),
        (''hideout_areas'', ''/client/hideout/areas'', JNull),
        (''hideout_settings'', ''/client/hideout/settings'', JNull),
        (''hideout_recipes'', ''/client/hideout/production/recipes'', JNull),
        (''customization'', ''/client/customization'', JNull)]"
  by (simp add: bsg_endpoints_def client_catalog_def get_globals_def get_items_def
        get_locale_def get_achievements_def get_achievement_statistics_def get_survey_def
        get_locations_def get_hideout_areas_def get_hideout_settings_def
        get_hideout_recipes_def get_customization_def)

text \<open>
  C6. A new client's counter is 0. Every \<^verbatim>\<open>EFTClient._request\<close> increments it by one
  and sends one request whose \<^verbatim>\<open>GClient-RequestId\<close> is the new value, whether or not the
  request succeeds. So in a run of the loop over any catalog of endpoint calls, and over
  the catalog of \<^verbatim>\<open>main\<close>, the requests sent carry 1, 2, ..., n in this order; the
  decimal strings of different values differ.
\<close>

theorem request_counter_sequence:
  "request_id (EFTClient_init l) = 0
   \<and> (\<exists>req. snd (client_request L net ep data (c, sent)) =
               (c\<lparr>request_id := Suc (request_id c)\<rparr>, sent @ [req])
            \<and> request_id_header req = Some (JStr (str_of_nat (Suc (request_id c)))))
   \<and> (\<exists>new. snd (fst (snd (bsg_main_loop L (client_catalog L net specs)
                               (EFTClient_init l, sent) fs))) = sent @ new
            \<and> map request_id_header new =
                 map (\<lambda>k. Some (JStr (str_of_nat k))) [1..<Suc (length specs)])
   \<and> (\<exists>new. snd (fst (snd (bsg_main_loop L (bsg_endpoints L net)
                               (EFTClient_init l, sent) fs))) = sent @ new
            \<and> map request_id_header new =
                 map (\<lambda>k. Some (JStr (str_of_nat k))) [1..<12])
   \<and> inj str_of_nat"
proof -
  have a: "request_id (EFTClient_init l) = 0"
    by (simp add: EFTClient_init_def)
  have b: "\<exists>req. snd (client_request L net ep data (c, sent)) =
               (c\<lparr>request_id := Suc (request_id c)\<rparr>, sent @ [req])
            \<and> request_id_header req = Some (JStr (str_of_nat (Suc (request_id c))))"
    by (simp add: client_request_state request_id_header_post_or_get client_headers_id)
  have eq: "[Suc (request_id (EFTClient_init l))..<Suc (request_id (EFTClient_init l)) + length sp]
              = [1..<Suc (length sp)]" for sp :: "(string \<times> string \<times> json) list"
    by (simp only: a One_nat_def add_Suc plus_nat.add_0)
  have c: "\<exists>new. snd (fst (snd (bsg_main_loop L (client_catalog L net sp)
                               (EFTClient_init l, sent) fs))) = sent @ new
            \<and> map request_id_header new =
                 map (\<lambda>k. Some (JStr (str_of_nat k))) [1..<Suc (length sp)]" for sp
    using loop_requests [of L net sp "EFTClient_init l" sent fs] unfolding eq by blast
  define sp11 :: "(string \<times> string \<times> json) list" where "sp11 =
       [(''globals'', ''/client/globals'', JNull),
        (''items'', ''/client/items'', JNull),
        (''locale_en'', ''/client/locale/en'', JNull),
        (''achievements'', ''/client/achievement/list'', JNull),
        (''achievement_stats'', ''/client/achievement/statistic'', JNull),
        (''survey'', ''/client/survey'', JNull),
        (''locations'', ''/client/locations'', JNull),
        (''hideout_areas'', ''/client/hideout/areas'', JNull),
        (''hideout_settings'', ''/client/hideout/settings'', JNull),
        (''hideout_recipes'', ''/client/hideout/production/recipes'', JNull),
        (''customization'', ''/client/customization'', JNull)]"
  have len: "Suc (length sp11) = 12"
    by (simp add: sp11_def)
  have cat: "bsg_endpoints L net = client_catalog L net sp11"
    by (simp only: bsg_endpoints_catalog sp11_def)
  have d: "\<exists>new. snd (fst (snd (bsg_main_loop L (bsg_endpoints L net)
                               (EFTClient_init l, sent) fs))) = sent @ new
            \<and> map request_id_header new =
                 map (\<lambda>k. Some (JStr (str_of_nat k))) [1..<12]"
    using c [of sp11] unfolding cat len by blast
  have e: "inj str_of_nat"
    by (rule injI) (rule str_of_nat_inj)
  from a b c [of specs] d e show ?thesis by blast
qed

section \<open>Persistence of the device identifier\<close>

lemma lower_hex_not_space: "lower_hex c \<Longrightarrow> \<not> is_space c"
  by (auto simp: lower_hex_def is_space_def)

lemma py_strip_id:
  assumes "s \<noteq> []" and "\<not> is_space (hd s)" and "\<not> is_space (last s)"
  shows "py_strip s = s"
proof -
  from assms(1,2) have "dropWhile is_space s = s"
    by (cases s) simp_all
  moreover from assms(1,3) have "dropWhile is_space (rev s) = rev s"
    by (cases "rev s") (simp_all add: hd_rev)
  ultimately show ?thesis by (simp add: py_strip_def)
qed

lemma py_strip_idem: "py_strip (py_strip s) = py_strip s"
proof (cases "py_strip s = []")
  case True
  have "py_strip [] = []" by (simp add: py_strip_def)
  with True show ?thesis by simp
next
  case False
  let ?a = "dropWhile is_space s"
  let ?b = "dropWhile is_space (rev ?a)"
  have s: "py_strip s = rev ?b" by (simp add: py_strip_def)
  from False s have b: "?b \<noteq> []" by simp
  have a: "?a \<noteq> []"
  proof
    assume "?a = []"
    then have "?b = []" by (simp only: rev.simps dropWhile.simps)
    with b show False ..
  qed
  from b have hb: "\<not> is_space (hd ?b)" by (rule hd_dropWhile)
  from a have ha: "\<not> is_space (hd ?a)" by (rule hd_dropWhile)
  have "suffix ?b (rev ?a)" by (rule suffix_dropWhile)
  then obtain p where p: "rev ?a = p @ ?b" by (auto simp: suffix_def)
  then have eq: "?a = rev ?b @ rev p" by (metis rev_append rev_rev_ident)
  from b have "rev ?b \<noteq> []" by (simp only: rev_is_Nil_conv not_False_eq_True)
  then have "hd (rev ?b @ rev p) = hd (rev ?b)" by (rule hd_append2)
  with eq have "hd (rev ?b) = hd ?a" by (simp only:)
  with ha have 1: "\<not> is_space (hd (py_strip s))" by (simp add: s)
  from hb b have 2: "\<not> is_space (last (py_strip s))" by (simp add: s last_rev)
  from False 1 2 show ?thesis by (rule py_strip_id)
qed

lemma last_take_hexdigest: "lower_hex (last (take 24 (hexdigest w)))"
proof -
  have "take 24 (hexdigest w) \<noteq> []" by (simp add: hexdigest_def)
  then have "last (take 24 (hexdigest w)) \<in> set (hexdigest w)"
    by (meson in_set_takeD last_in_set)
  with hexdigest_lower [of w] show ?thesis by (simp add: list_all_iff)
qed

lemma take_hexdigest_ne: "take 24 (hexdigest w) \<noteq> []"
  by (simp add: hexdigest_def)

lemma hexdigest_ne: "hexdigest w \<noteq> []"
  by (simp add: hexdigest_def)

lemma py_strip_generated: "py_strip (fst (generate_hw_code L rng)) = fst (generate_hw_code L rng)"
proof -
  let ?g = "fst (generate_hw_code L rng)"
  have l: "\<not> is_space (last ?g)"
    using last_take_hexdigest [THEN lower_hex_not_space]
    by (simp add: generate_hw_code_def random_md5s_3 random_md5s_4 random_md5_def
          token_bytes_def take_hexdigest_ne hexdigest_ne)
  have h: "\<not> is_space (hd ?g)"
    by (simp add: generate_hw_code_def random_md5s_3 random_md5s_4 random_md5_def
          token_bytes_def is_space_def)
  have "?g \<noteq> []"
    by (simp add: generate_hw_code_def random_md5s_3 random_md5s_4 random_md5_def
          token_bytes_def)
  then show ?thesis using h l by (rule py_strip_id)
qed

lemma get_or_create_twice:
  "get_or_create_hw_code L sp (fst (snd (get_or_create_hw_code L sp fs rng))) rng' =
     (fst (get_or_create_hw_code L sp fs rng), fst (snd (get_or_create_hw_code L sp fs rng)), rng')"
proof (cases "fs (hw_file_of sp)")
  case None
  then show ?thesis
    using py_strip_generated [of L rng]
    by (simp add: get_or_create_hw_code_def case_prod_beta)
next
  case (Some stored)
  then show ?thesis
    by (simp add: get_or_create_hw_code_def py_strip_idem)
qed

lemma safe_email_not_inj: "\<not> inj (safe_email L)"
proof
  assume i: "inj (safe_email L)"
  have "range (safe_email L) \<subseteq> (\<lambda>w. take 12 (hexdigest w)) ` (UNIV :: 128 word set)"
    by (auto simp: safe_email_def)
  then have "finite (range (safe_email L))"
    by (rule finite_subset) simp
  with i have "finite (UNIV :: string set)"
    by (rule finite_imageD [rotated])
  then show False
    by (simp add: infinite_UNIV_listI)
qed

lemma hw_file_eq_iff:
  "hw_file_of (storage_path_of L e1) = hw_file_of (storage_path_of L e2)
     \<longleftrightarrow> safe_email L e1 = safe_email L e2"
  by (simp add: hw_file_of_def storage_path_of_def)

text \<open>
  C3, as stated, fails in its second half: the path is made of 12 hexadecimal characters,
  so whatever the digest function, some two different emails have the same identifier
  file.
\<close>

theorem distinct_emails_share_a_path:
  "\<not> (\<forall>L e1 e2. e1 \<noteq> e2 \<longrightarrow>
         hw_file_of (storage_path_of L e1) \<noteq> hw_file_of (storage_path_of L e2))"
proof
  assume a: "\<forall>L e1 e2. e1 \<noteq> e2 \<longrightarrow>
         hw_file_of (storage_path_of L e1) \<noteq> hw_file_of (storage_path_of L e2)"
  have "inj (safe_email stub_lib)"
  proof (rule injI)
    fix e1 e2 assume "safe_email stub_lib e1 = safe_email stub_lib e2"
    then have "hw_file_of (storage_path_of stub_lib e1) = hw_file_of (storage_path_of stub_lib e2)"
      by (simp add: hw_file_eq_iff)
    with a show "e1 = e2" by blast
  qed
  then show False by (simp add: safe_email_not_inj)
qed

text \<open>
  C3, amended. A second construction with the same email on the file system the first
  one left returns the same device identifier, reads it from the file (no entropy is
  drawn) and leaves the file system as it is. The identifier file is
  \<^verbatim>\<open>.eft_storage/<fingerprint>/hwcode.txt\<close>, where the fingerprint is the first 12
  characters of the hexdigest of the MD5 digest of the email: two emails have the same
  file exactly when their fingerprints agree.
\<close>

theorem device_identifier_persistence:
  "hw_code (fst (EFTLauncher_init L (fst (snd (EFTLauncher_init L fs rng em pw lv cv uv)))
                   rng' em pw' lv' cv' uv'))
     = hw_code (fst (EFTLauncher_init L fs rng em pw lv cv uv))
   \<and> snd (EFTLauncher_init L (fst (snd (EFTLauncher_init L fs rng em pw lv cv uv)))
            rng' em pw' lv' cv' uv')
     = (fst (snd (EFTLauncher_init L fs rng em pw lv cv uv)), rng')
   \<and> fst (snd (EFTLauncher_init L fs rng em pw lv cv uv))
        (hw_file_of (storage_path (fst (EFTLauncher_init L fs rng em pw lv cv uv)))) \<noteq> None
   \<and> hw_file_of (storage_path (fst (EFTLauncher_init L fs rng em pw lv cv uv)))
     = ''.eft_storage/'' @ take 12 (hexdigest (md5 L (str_encode L em))) @ ''/hwcode.txt''
   \<and> (hw_file_of (storage_path_of L e1) = hw_file_of (storage_path_of L e2)
        \<longleftrightarrow> safe_email L e1 = safe_email L e2)"
proof -
  let ?sp = "storage_path_of L em"
  let ?g1 = "get_or_create_hw_code L ?sp fs rng"
  have i1: "EFTLauncher_init L fs rng em pw lv cv uv =
     (\<lparr>email = em, password = pw, launcher_version = lv, client_version = cv,
       unity_version = uv, token = JNull, game_session = JNull,
       storage_path = ?sp, hw_code = fst ?g1\<rparr>, snd ?g1)"
    by (simp add: EFTLauncher_init_def split: prod.splits)
  let ?g2 = "get_or_create_hw_code L ?sp (fst (snd ?g1)) rng'"
  have i2: "EFTLauncher_init L (fst (snd ?g1)) rng' em pw' lv' cv' uv' =
     (\<lparr>email = em, password = pw', launcher_version = lv', client_version = cv',
       unity_version = uv', token = JNull, game_session = JNull,
       storage_path = ?sp, hw_code = fst ?g2\<rparr>, snd ?g2)"
    by (simp add: EFTLauncher_init_def split: prod.splits)
  have g2: "?g2 = (fst ?g1, fst (snd ?g1), rng')"
    by (rule get_or_create_twice)
  have ex: "fst (snd ?g1) (hw_file_of ?sp) \<noteq> None"
    by (simp add: get_or_create_hw_code_def split: option.splits prod.splits)
  have path: "hw_file_of ?sp =
      ''.eft_storage/'' @ take 12 (hexdigest (md5 L (str_encode L em))) @ ''/hwcode.txt''"
    by (simp add: hw_file_of_def storage_path_of_def safe_email_def)
  show ?thesis
    using ex path by (simp add: i1 i2 g2 hw_file_eq_iff)
qed

section \<open>The loops of main\<close>



























end
